theory Spec2Isabelle
  imports Main
begin

section \<open>JavaScript values used by the client\<close>

text \<open>
  The theory follows \<open>src/JournalCtl.ts\<close>: the option validators, the constructor that
  builds the arguments of \<open>journalctl\<close> and spawns it, the handlers for the lines, the
  standard error and the exit of the subprocess, and \<open>createGenerator\<close>. What the
  runtime contributes (strings, numbers, \<open>Date\<close>, \<open>JSON.parse\<close>, promises, generator
  objects) is modelled as far as the class depends on it.

  A JavaScript string is a sequence of UTF-16 code units; it is modelled as a list of
  natural numbers, one per code unit. \<open>js\<close> turns an ASCII literal into such a string.
  Where a definition names a single character it gives its code: 9 tab, 10 line feed,
  13 carriage return, 32 space, 34 double quote, 43 \<open>+\<close>, 44 comma, 45 \<open>-\<close>, 46 \<open>.\<close>,
  47 \<open>/\<close>, 48 to 57 the digits, 58 \<open>:\<close>, 65 to 90 \<open>A\<close> to \<open>Z\<close>, 91 \<open>[\<close>,
  92 backslash, 93 \<open>]\<close>, 95 \<open>_\<close>, 97 to 122 \<open>a\<close> to \<open>z\<close>, 123 \<open>{\<close>, 125 \<open>}\<close>.
\<close>

type_synonym jsstring = "nat list"

definition js :: "string \<Rightarrow> jsstring" where
  "js s = map of_char s"

text \<open>
  The numbers the options carry (\<open>lines\<close>, \<open>priority\<close>) are doubles. The validators
  only distinguish integral values from the rest, so a number is either an integer-valued
  double \<open>Integer i\<close> (\<open>-0\<close> is \<open>Integer 0\<close>), a value that is not an integer
  (\<open>NonInteger\<close>: a finite fraction or an infinity), or \<open>NaN\<close>. Every integer of
  magnitude below \<open>2^53\<close> is a double; of the larger integers only some are, and only
  those occur as values.
\<close>

datatype jsnumber = Integer int | NonInteger | NaN

text \<open>
  What the runtime provides and the repository does not define: \<open>new Date(s).getTime()\<close>
  for a string (\<open>None\<close> is \<open>NaN\<close>; the result depends on the engine and the time zone),
  \<open>Date.prototype.toISOString\<close> for a valid time value, and \<open>Number::toString\<close> for
  the integer-valued doubles of magnitude \<open>2^53\<close> and more, where it prints the
  shortest digits that read back as the same double (their last digit is left to the
  engine) and changes to exponent notation from \<open>1e21\<close> on.
\<close>

record js_env =
  Date_getTime :: "jsstring \<Rightarrow> int option"
  Date_toISOString :: "int \<Rightarrow> jsstring"
  Number_toString :: "int \<Rightarrow> jsstring"

text \<open>The decimal digits of a natural number, without leading zeros.\<close>

function decimal :: "nat \<Rightarrow> jsstring" where
  "decimal n = (if n < 10 then [48 + n] else decimal (n div 10) @ [48 + n mod 10])"
  by pat_completeness auto
termination
  by (relation "measure id") auto

text \<open>The number that a string of decimal digits denotes.\<close>

definition digits_value :: "jsstring \<Rightarrow> int" where
  "digits_value s = foldl (\<lambda>a c. 10 * a + (int c - 48)) 0 s"

text \<open>
  The template literal \<open>`${n}`\<close> for an integer-valued number: below \<open>2^53\<close> in
  magnitude the shortest digits of the double are the digits of the integer itself, with
  a minus sign for a negative one.
\<close>

definition number_toString :: "js_env \<Rightarrow> int \<Rightarrow> jsstring" where
  "number_toString env i =
     (if \<bar>i\<bar> < 2 ^ 53
      then (if i < 0 then js ''-'' @ decimal (nat (- i)) else decimal (nat i))
      else Number_toString env i)"

subsection \<open>Character classes of the regular expressions\<close>

definition is_digit :: "nat \<Rightarrow> bool" where
  "is_digit c = (48 \<le> c \<and> c \<le> 57)"

definition is_upper :: "nat \<Rightarrow> bool" where
  "is_upper c = (65 \<le> c \<and> c \<le> 90)"

definition is_lower :: "nat \<Rightarrow> bool" where
  "is_lower c = (97 \<le> c \<and> c \<le> 122)"

text \<open>
  The class \<open>\s\<close> of an ECMAScript regular expression: tab, line feed, vertical tab,
  form feed, carriage return, space, no-break space, the Unicode space separators, the
  line and paragraph separators and the byte order mark.
\<close>

definition is_space :: "nat \<Rightarrow> bool" where
  "is_space c = (c \<in> {9, 10, 11, 12, 13, 32, 160, 5760, 8232, 8233, 8239, 8287, 12288, 65279}
     \<or> (8192 \<le> c \<and> c \<le> 8202))"

section \<open>Option validators\<close>

datatype error =
    NotValidFieldName jsstring
  | NotValidSyslogIdentifier jsstring
  | NotValidDate jsstring
  | NotAnInteger jsnumber
  | NotPositiveInteger jsnumber
  | NotValidPriority jsnumber
  | NotValidUnit jsstring
  | SinceMoreRecentThanUntil
  | RangeError_InvalidTimeValue
  | OnlyOneGenerator

text \<open>\<open>/^[A-Z0-9_]+$/\<close>\<close>

definition validateFieldName :: "jsstring \<Rightarrow> error + jsstring" where
  "validateFieldName fieldName =
     (if fieldName \<noteq> [] \<and> list_all (\<lambda>c. is_upper c \<or> is_digit c \<or> c = 95) fieldName
      then Inr fieldName else Inl (NotValidFieldName fieldName))"

text \<open>\<open>/^[^\s]+$/\<close>\<close>

definition validateSyslogIdentifier :: "jsstring \<Rightarrow> error + jsstring" where
  "validateSyslogIdentifier identifier =
     (if identifier \<noteq> [] \<and> list_all (\<lambda>c. \<not> is_space c) identifier
      then Inr identifier else Inl (NotValidSyslogIdentifier identifier))"

text \<open>
  \<open>/^\d\d\d\d-\d\d-\d\d(?: \d\d:\d\d(?::\d\d)?)?$/\<close>: the three alternatives are three
  fixed-length patterns, each position a digit or a literal character.
\<close>

datatype pat = D | Lit nat

fun pat_match :: "pat \<Rightarrow> nat \<Rightarrow> bool" where
  "pat_match D c = is_digit c"
| "pat_match (Lit l) c = (c = l)"

definition pat_date :: "pat list" where
  "pat_date = [D, D, D, D, Lit 45, D, D, Lit 45, D, D]"

definition pat_minutes :: "pat list" where
  "pat_minutes = [Lit 32, D, D, Lit 58, D, D]"

definition pat_seconds :: "pat list" where
  "pat_seconds = [Lit 58, D, D]"

definition RegExp_DateString :: "jsstring \<Rightarrow> bool" where
  "RegExp_DateString s =
     (list_all2 pat_match pat_date s
      \<or> list_all2 pat_match (pat_date @ pat_minutes) s
      \<or> list_all2 pat_match (pat_date @ pat_minutes @ pat_seconds) s)"

definition validateDate :: "js_env \<Rightarrow> jsstring \<Rightarrow> error + jsstring" where
  "validateDate env dateString =
     (if \<not> RegExp_DateString dateString then Inl (NotValidDate dateString)
      else if Date_getTime env dateString = None then Inl (NotValidDate dateString)
      else Inr dateString)"

text \<open>
  \<open>validatePositiveInteger\<close> returns its argument when it is an integer that is not
  negative; the model returns that integer.
\<close>

fun validatePositiveInteger :: "jsnumber \<Rightarrow> error + int" where
  "validatePositiveInteger (Integer i) =
     (if i < 0 then Inl (NotPositiveInteger (Integer i)) else Inr i)"
| "validatePositiveInteger v = Inl (NotAnInteger v)"

definition validatePriority :: "jsnumber \<Rightarrow> error + int" where
  "validatePriority priority =
     (case validatePositiveInteger priority of
        Inl e \<Rightarrow> Inl e
      | Inr i \<Rightarrow> if i < 0 \<or> i > 7 then Inl (NotValidPriority priority) else Inr i)"

text \<open>\<open>/^[A-Za-z0-9:\-_\.\\]+$/\<close>\<close>

definition validateUnit :: "jsstring \<Rightarrow> error + jsstring" where
  "validateUnit u =
     (if u \<noteq> [] \<and> list_all (\<lambda>c. is_upper c \<or> is_lower c \<or> is_digit c
            \<or> c = 58 \<or> c = 45 \<or> c = 95 \<or> c = 46 \<or> c = 92) u
      then Inr u else Inl (NotValidUnit u))"

section \<open>Argument builder and constructor\<close>

datatype date_spec = DateString jsstring | DateObject "int option"

datatype priority_spec = Single jsnumber | Range jsnumber jsnumber

text \<open>
  \<open>JournalCtlOptions\<close>: every field is optional (\<open>None\<close> is \<open>undefined\<close>). A
  \<open>Date\<close> object is its time value (\<open>None\<close> for an invalid date); the filter object is
  the list of its keys and values in the order \<open>for ... in\<close> enumerates them.
\<close>

record JournalCtlOptions =
  opt_all :: "bool option"
  opt_lines :: "jsnumber option"
  opt_since :: "date_spec option"
  opt_until :: "date_spec option"
  opt_identifier :: "jsstring option"
  opt_unit :: "jsstring option"
  opt_filter :: "(jsstring \<times> jsstring) list option"
  opt_priority :: "priority_spec option"

text \<open>
  Truthiness, as \<open>if (options.until)\<close> and \<open>if (options.unit)\<close> test it: \<open>undefined\<close>
  and the empty string are falsy, a \<open>Date\<close> object is truthy.
\<close>

fun truthy_date :: "date_spec option \<Rightarrow> bool" where
  "truthy_date None = False"
| "truthy_date (Some (DateString s)) = (s \<noteq> [])"
| "truthy_date (Some (DateObject t)) = True"

fun truthy_string :: "jsstring option \<Rightarrow> bool" where
  "truthy_string None = False"
| "truthy_string (Some s) = (s \<noteq> [])"

text \<open>\<open>.replace(/T|\.\d\d\dZ/g, ' ')\<close> (84 is \<open>T\<close>, 90 is \<open>Z\<close>)\<close>

fun replace_T_millis :: "jsstring \<Rightarrow> jsstring" where
  "replace_T_millis [] = []"
| "replace_T_millis (c # cs) =
     (if c = 84 then 32 # replace_T_millis cs
      else if c = 46 \<and> list_all2 pat_match [D, D, D, Lit 90] (take 4 cs)
        then 32 # replace_T_millis (drop 4 cs)
      else c # replace_T_millis cs)"

definition trim :: "jsstring \<Rightarrow> jsstring" where
  "trim s = rev (dropWhile is_space (rev (dropWhile is_space s)))"

text \<open>
  The date token of \<open>-S\<close> and \<open>-U\<close>: a string is validated, a \<open>Date\<close> is printed with
  \<open>toISOString\<close>, which throws a \<open>RangeError\<close> on an invalid date.
\<close>

fun dateString :: "js_env \<Rightarrow> date_spec \<Rightarrow> error + jsstring" where
  "dateString env (DateString s) = validateDate env s"
| "dateString env (DateObject None) = Inl RangeError_InvalidTimeValue"
| "dateString env (DateObject (Some t)) = Inr (trim (replace_T_millis (Date_toISOString env t)))"

text \<open>\<open>getTime()\<close> of \<open>new Date(s)\<close> for a string, of the object itself for a \<open>Date\<close>.\<close>

fun getTime :: "js_env \<Rightarrow> date_spec \<Rightarrow> int option" where
  "getTime env (DateString s) = Date_getTime env s"
| "getTime env (DateObject t) = t"

definition and_then :: "error + 'a \<Rightarrow> ('a \<Rightarrow> error + 'b) \<Rightarrow> error + 'b" where
  "and_then m f = (case m of Inl e \<Rightarrow> Inl e | Inr x \<Rightarrow> f x)"

text \<open>
  The constructor pushes tokens block by block; each block below returns the tokens it
  pushes, or the error it throws.
\<close>

definition until_args :: "js_env \<Rightarrow> date_spec option \<Rightarrow> error + jsstring list" where
  "until_args env u =
     (if truthy_date u
      then and_then (dateString env (the u)) (\<lambda>d. Inr [js ''-U'', d])
      else Inr [js ''-f''])"

definition all_args :: "bool option \<Rightarrow> jsstring list" where
  "all_args a = (if a = Some True then [js ''-a''] else [])"

definition lines_args :: "js_env \<Rightarrow> JournalCtlOptions \<Rightarrow> error + jsstring list" where
  "lines_args env options =
     (if \<not> truthy_date (opt_until options) \<and> \<not> truthy_date (opt_since options)
          \<and> opt_lines options = None
      then Inr [js ''-n'', js ''10'']
      else (case opt_lines options of
              Some n \<Rightarrow> and_then (validatePositiveInteger n)
                          (\<lambda>i. Inr [js ''-n'', number_toString env i])
            | None \<Rightarrow> Inr []))"

definition since_args :: "js_env \<Rightarrow> date_spec option \<Rightarrow> error + jsstring list" where
  "since_args env s =
     (if truthy_date s
      then and_then (dateString env (the s)) (\<lambda>d. Inr [js ''-S'', d])
      else Inr [])"

text \<open>
  The ordering check: \<open>dSince.getTime() > dUntil.getTime()\<close>, which is false when either
  side is \<open>NaN\<close>.
\<close>

definition since_until_check :: "js_env \<Rightarrow> JournalCtlOptions \<Rightarrow> error + unit" where
  "since_until_check env options =
     (if truthy_date (opt_since options) \<and> truthy_date (opt_until options)
      then (case (getTime env (the (opt_since options)), getTime env (the (opt_until options))) of
              (Some dSince, Some dUntil) \<Rightarrow>
                 if dSince > dUntil then Inl SinceMoreRecentThanUntil else Inr ()
            | _ \<Rightarrow> Inr ())
      else Inr ())"

fun priority_args :: "js_env \<Rightarrow> priority_spec option \<Rightarrow> error + jsstring list" where
  "priority_args env None = Inr []"
| "priority_args env (Some (Single p)) =
     and_then (validatePriority p) (\<lambda>i. Inr [js ''-p'', number_toString env i])"
| "priority_args env (Some (Range from to)) =
     and_then (validatePriority from) (\<lambda>i.
     and_then (validatePriority to) (\<lambda>j.
       Inr [js ''-p'', number_toString env i @ js ''..'' @ number_toString env j]))"

fun identifier_args :: "jsstring option \<Rightarrow> error + jsstring list" where
  "identifier_args None = Inr []"
| "identifier_args (Some i) = and_then (validateSyslogIdentifier i) (\<lambda>v. Inr [js ''-t'', v])"

definition unit_args :: "jsstring option \<Rightarrow> error + jsstring list" where
  "unit_args u =
     (if truthy_string u then and_then (validateUnit (the u)) (\<lambda>v. Inr [js ''-u'', v])
      else Inr [])"

fun filter_loop :: "(jsstring \<times> jsstring) list \<Rightarrow> error + jsstring list" where
  "filter_loop [] = Inr []"
| "filter_loop ((key, val) # kvs) =
     and_then (validateFieldName key) (\<lambda>k.
     and_then (filter_loop kvs) (\<lambda>rest. Inr ((k @ js ''='' @ val) # rest)))"

fun filter_args :: "(jsstring \<times> jsstring) list option \<Rightarrow> error + jsstring list" where
  "filter_args None = Inr []"
| "filter_args (Some kvs) = filter_loop kvs"

fun outputFields_forEach :: "jsstring list \<Rightarrow> error + jsstring list" where
  "outputFields_forEach [] = Inr []"
| "outputFields_forEach (fieldName # fs) =
     and_then (validateFieldName fieldName) (\<lambda>f.
     and_then (outputFields_forEach fs) (\<lambda>rest. Inr (js ''--output-field'' # f # rest)))"

definition forced_field :: "jsstring list \<Rightarrow> jsstring \<Rightarrow> jsstring list" where
  "forced_field outputFields name =
     (if name \<in> set outputFields then [] else [js ''--output-field'', name])"

fun outputFields_args :: "jsstring list option \<Rightarrow> error + jsstring list" where
  "outputFields_args None = Inr []"
| "outputFields_args (Some outputFields) =
     and_then (outputFields_forEach outputFields) (\<lambda>fs.
       Inr (fs @ forced_field outputFields (js ''MESSAGE'')
               @ forced_field outputFields (js ''SYSLOG_IDENTIFIER'')
               @ forced_field outputFields (js ''_HOSTNAME'')))"

text \<open>
  An instance after construction: the subprocess (the argument list \<open>journalctl\<close> was
  spawned with), the accumulated standard-error text and the generator flag.
\<close>

record JournalCtl =
  journalCtl :: "jsstring list"
  stdErrorText :: "jsstring option"
  generatorInstanceExtists :: bool

text \<open>
  The constructor: the blocks run in the order of the source, the first error aborts
  construction before \<open>childProcess.spawn\<close> is reached.
\<close>

definition constructor ::
    "js_env \<Rightarrow> JournalCtlOptions \<Rightarrow> jsstring list option \<Rightarrow> error + JournalCtl" where
  "constructor env options outputFields =
     and_then (until_args env (opt_until options)) (\<lambda>a_until.
     and_then (lines_args env options) (\<lambda>a_lines.
     and_then (since_args env (opt_since options)) (\<lambda>a_since.
     and_then (since_until_check env options) (\<lambda>_.
     and_then (priority_args env (opt_priority options)) (\<lambda>a_priority.
     and_then (identifier_args (opt_identifier options)) (\<lambda>a_identifier.
     and_then (unit_args (opt_unit options)) (\<lambda>a_unit.
     and_then (filter_args (opt_filter options)) (\<lambda>a_filter.
     and_then (outputFields_args outputFields) (\<lambda>a_fields.
       Inr \<lparr> journalCtl = [js ''-o'', js ''json''] @ a_until @ all_args (opt_all options)
                 @ a_lines @ a_since @ a_priority @ a_identifier @ a_unit @ a_filter
                 @ a_fields,
             stdErrorText = Some [],
             generatorInstanceExtists = False \<rparr>)))))))))"

section \<open>The runtime's \<open>JSON.parse\<close>\<close>

text \<open>
  \<open>JSON.parse\<close> is the engine's, not the repository's. It is modelled after the JSON
  grammar that ECMAScript prescribes for it: a lexer over code units followed by a
  pushdown recogniser over tokens that builds the value. A number keeps its lexeme (the
  model does not round to a double), an object keeps its properties in the order in which
  the engine enumerates them (the array indices in ascending order, then the other keys
  in the order of their first occurrence) with the last value of a repeated key, and an
  array carries the own properties that are assigned to it later (none after parsing).
\<close>

datatype jsvalue =
    JNull
  | JBool bool
  | JNumber jsstring
  | JString jsstring
  | JArray "jsvalue list" "(jsstring \<times> jsvalue) list"
  | JObject "(jsstring \<times> jsvalue) list"

datatype token =
    TLBrace | TRBrace | TLBracket | TRBracket | TColon | TComma
  | TString jsstring | TNumber jsstring | TTrue | TFalse | TNull

text \<open>
  The states of the number automaton for
  \<open>-? (0 | [1-9][0-9]*) (. [0-9]+)? ([eE] [+-]? [0-9]+)?\<close>.
\<close>

datatype numstate = NMinus | NZero | NInt | NDot | NFrac | NExp | NExpSign | NExpDigits

datatype lexstate =
    LStart
  | LString jsstring
  | LEscape jsstring
  | LUnicode jsstring "nat list"
  | LNumber numstate jsstring
  | LLiteral token jsstring

definition is_json_ws :: "nat \<Rightarrow> bool" where
  "is_json_ws c = (c = 9 \<or> c = 10 \<or> c = 13 \<or> c = 32)"

text \<open>
  The first character of a token: whitespace is skipped, a punctuation character is a
  token, a quote opens a string, a minus sign or a digit a number, and \<open>t\<close> (116),
  \<open>f\<close> (102) and \<open>n\<close> (110) open the literals \<open>true\<close>, \<open>false\<close> and \<open>null\<close>.
\<close>

definition start_token :: "nat \<Rightarrow> (token list \<times> lexstate) option" where
  "start_token c =
     (if is_json_ws c then Some ([], LStart)
      else if c = 123 then Some ([TLBrace], LStart)
      else if c = 125 then Some ([TRBrace], LStart)
      else if c = 91 then Some ([TLBracket], LStart)
      else if c = 93 then Some ([TRBracket], LStart)
      else if c = 58 then Some ([TColon], LStart)
      else if c = 44 then Some ([TComma], LStart)
      else if c = 34 then Some ([], LString [])
      else if c = 45 then Some ([], LNumber NMinus [c])
      else if c = 48 then Some ([], LNumber NZero [c])
      else if is_digit c then Some ([], LNumber NInt [c])
      else if c = 116 then Some ([], LLiteral TTrue (js ''rue''))
      else if c = 102 then Some ([], LLiteral TFalse (js ''alse''))
      else if c = 110 then Some ([], LLiteral TNull (js ''ull''))
      else None)"

text \<open>One more character of a number (101 and 69 are \<open>e\<close> and \<open>E\<close>).\<close>

fun num_next :: "numstate \<Rightarrow> nat \<Rightarrow> numstate option" where
  "num_next NMinus c = (if c = 48 then Some NZero else if is_digit c then Some NInt else None)"
| "num_next NZero c =
     (if c = 46 then Some NDot else if c = 101 \<or> c = 69 then Some NExp else None)"
| "num_next NInt c =
     (if is_digit c then Some NInt else if c = 46 then Some NDot
      else if c = 101 \<or> c = 69 then Some NExp else None)"
| "num_next NDot c = (if is_digit c then Some NFrac else None)"
| "num_next NFrac c =
     (if is_digit c then Some NFrac else if c = 101 \<or> c = 69 then Some NExp else None)"
| "num_next NExp c =
     (if c = 43 \<or> c = 45 then Some NExpSign else if is_digit c then Some NExpDigits else None)"
| "num_next NExpSign c = (if is_digit c then Some NExpDigits else None)"
| "num_next NExpDigits c = (if is_digit c then Some NExpDigits else None)"

fun num_final :: "numstate \<Rightarrow> bool" where
  "num_final NZero = True"
| "num_final NInt = True"
| "num_final NFrac = True"
| "num_final NExpDigits = True"
| "num_final _ = False"

text \<open>
  The single-character escapes \<open>\" \\ \/ \b \f \n \r \t\<close> (98, 102, 110, 114 and 116
  are \<open>b\<close>, \<open>f\<close>, \<open>n\<close>, \<open>r\<close> and \<open>t\<close>) and the value of a hexadecimal digit.
\<close>

definition escape_char :: "nat \<Rightarrow> nat option" where
  "escape_char c =
     (if c = 34 then Some 34 else if c = 92 then Some 92 else if c = 47 then Some 47
      else if c = 98 then Some 8 else if c = 102 then Some 12 else if c = 110 then Some 10
      else if c = 114 then Some 13 else if c = 116 then Some 9 else None)"

definition hex_value :: "nat \<Rightarrow> nat option" where
  "hex_value c =
     (if is_digit c then Some (c - 48)
      else if 97 \<le> c \<and> c \<le> 102 then Some (c - 87)
      else if 65 \<le> c \<and> c \<le> 70 then Some (c - 55)
      else None)"

text \<open>
  One character in a lexer state. A string ends at a quote, continues after a backslash
  with an escape (117 is \<open>u\<close>, followed by four hexadecimal digits), and admits no
  control character. A number that cannot be continued ends if it is complete, and the
  character is then read as the start of the next token.
\<close>

fun lex_step :: "nat \<Rightarrow> lexstate \<Rightarrow> (token list \<times> lexstate) option" where
  "lex_step c LStart = start_token c"
| "lex_step c (LString acc) =
     (if c = 34 then Some ([TString acc], LStart)
      else if c = 92 then Some ([], LEscape acc)
      else if c < 32 then None
      else Some ([], LString (acc @ [c])))"
| "lex_step c (LEscape acc) =
     (case escape_char c of
        Some d \<Rightarrow> Some ([], LString (acc @ [d]))
      | None \<Rightarrow> if c = 117 then Some ([], LUnicode acc []) else None)"
| "lex_step c (LUnicode acc hs) =
     (case hex_value c of
        None \<Rightarrow> None
      | Some h \<Rightarrow>
          if length hs = 3 then Some ([], LString (acc @ [foldl (\<lambda>a d. 16 * a + d) 0 (hs @ [h])]))
          else Some ([], LUnicode acc (hs @ [h])))"
| "lex_step c (LNumber ns lexeme) =
     (case num_next ns c of
        Some ns' \<Rightarrow> Some ([], LNumber ns' (lexeme @ [c]))
      | None \<Rightarrow>
          if num_final ns
          then (case start_token c of
                  None \<Rightarrow> None
                | Some (ts, st) \<Rightarrow> Some (TNumber lexeme # ts, st))
          else None)"
| "lex_step c (LLiteral tok rest) =
     (case rest of
        [] \<Rightarrow> None
      | [r] \<Rightarrow> if c = r then Some ([tok], LStart) else None
      | r # rs \<Rightarrow> if c = r then Some ([], LLiteral tok rs) else None)"

fun lex_run :: "lexstate \<Rightarrow> jsstring \<Rightarrow> (token list \<times> lexstate) option" where
  "lex_run st [] = Some ([], st)"
| "lex_run st (c # cs) =
     (case lex_step c st of
        None \<Rightarrow> None
      | Some (ts, st') \<Rightarrow>
          (case lex_run st' cs of
             None \<Rightarrow> None
           | Some (ts', st'') \<Rightarrow> Some (ts @ ts', st'')))"

fun lex_finish :: "lexstate \<Rightarrow> token list option" where
  "lex_finish LStart = Some []"
| "lex_finish (LNumber ns lexeme) = (if num_final ns then Some [TNumber lexeme] else None)"
| "lex_finish _ = None"

text \<open>The tokens of a text read from a given lexer state up to the end of the input.\<close>

definition lex_from :: "lexstate \<Rightarrow> jsstring \<Rightarrow> token list option" where
  "lex_from st text =
     (case lex_run st text of
        None \<Rightarrow> None
      | Some (ts, st') \<Rightarrow> (case lex_finish st' of None \<Rightarrow> None | Some ts' \<Rightarrow> Some (ts @ ts')))"

definition tokenize :: "jsstring \<Rightarrow> token list option" where
  "tokenize text = lex_from LStart text"

text \<open>
  The lexer states that occur: inside a literal, what is still expected is a nonempty
  run of lower-case letters.
\<close>

fun lex_ok :: "lexstate \<Rightarrow> bool" where
  "lex_ok (LLiteral tok rest) = (rest \<noteq> [] \<and> list_all is_lower rest)"
| "lex_ok _ = True"

text \<open>
  The characters that can stand between a stray comma and the end of the line: the
  whitespace of the regular expression, the closing brace and the comma itself. None of
  them continues a number, an escape or a literal, and none closes a string.
\<close>

definition breaks :: "nat \<Rightarrow> bool" where
  "breaks c = (is_space c \<or> c = 125 \<or> c = 44)"

text \<open>
  The recogniser: what may come next, and the stack of the arrays and objects that are
  open, innermost first. An open array holds its elements so far (last first), an open
  object its properties so far, and after a key also that key.
\<close>

datatype expect = Value | ValueOrEnd | KeyOrEnd | Key | Colon | CommaOrEnd | Finished jsvalue

datatype frame =
    ArrayFrame "jsvalue list"
  | ObjectFrame "(jsstring \<times> jsvalue) list"
  | KeyFrame "(jsstring \<times> jsvalue) list" jsstring

text \<open>
  An array index is a key that is the decimal form, without leading zeros, of an integer
  from 0 to \<open>2^32 - 2\<close>.
\<close>

definition is_array_index :: "jsstring \<Rightarrow> bool" where
  "is_array_index k =
     (k \<noteq> [] \<and> list_all is_digit k \<and> (if hd k = 48 then k = [48] else True)
      \<and> digits_value k < 4294967295)"

text \<open>
  Property assignment: an existing key keeps its place; a new key that is an array index
  goes before the first key that is not one or is a greater index, any other new key is
  appended.
\<close>

fun put :: "jsstring \<Rightarrow> jsvalue \<Rightarrow> (jsstring \<times> jsvalue) list \<Rightarrow> (jsstring \<times> jsvalue) list" where
  "put k v [] = [(k, v)]"
| "put k v ((k', v') # ps) =
     (if k = k' then (k, v) # ps
      else if is_array_index k
              \<and> (if is_array_index k' then digits_value k < digits_value k' else True)
              \<and> map_of ps k = None
      then (k, v) # (k', v') # ps
      else (k', v') # put k v ps)"

text \<open>A complete value goes to the innermost open array or object, or ends the text.\<close>

fun reduce :: "jsvalue \<Rightarrow> frame list \<Rightarrow> (expect \<times> frame list) option" where
  "reduce v [] = Some (Finished v, [])"
| "reduce v (ArrayFrame es # stack) = Some (CommaOrEnd, ArrayFrame (v # es) # stack)"
| "reduce v (KeyFrame ps k # stack) = Some (CommaOrEnd, ObjectFrame (put k v ps) # stack)"
| "reduce v (ObjectFrame ps # stack) = None"

fun scalar :: "token \<Rightarrow> jsvalue option" where
  "scalar (TString s) = Some (JString s)"
| "scalar (TNumber n) = Some (JNumber n)"
| "scalar TTrue = Some (JBool True)"
| "scalar TFalse = Some (JBool False)"
| "scalar TNull = Some JNull"
| "scalar _ = None"

definition parse_value :: "token \<Rightarrow> frame list \<Rightarrow> (expect \<times> frame list) option" where
  "parse_value t stack =
     (case scalar t of
        Some v \<Rightarrow> reduce v stack
      | None \<Rightarrow>
          if t = TLBracket then Some (ValueOrEnd, ArrayFrame [] # stack)
          else if t = TLBrace then Some (KeyOrEnd, ObjectFrame [] # stack)
          else None)"

definition parse_key :: "token \<Rightarrow> frame list \<Rightarrow> (expect \<times> frame list) option" where
  "parse_key t stack =
     (case (t, stack) of
        (TString k, ObjectFrame ps # rest) \<Rightarrow> Some (Colon, KeyFrame ps k # rest)
      | _ \<Rightarrow> None)"

definition parse_end :: "token \<Rightarrow> frame list \<Rightarrow> (expect \<times> frame list) option" where
  "parse_end t stack =
     (case (t, stack) of
        (TRBracket, ArrayFrame es # rest) \<Rightarrow> reduce (JArray (rev es) []) rest
      | (TRBrace, ObjectFrame ps # rest) \<Rightarrow> reduce (JObject ps) rest
      | _ \<Rightarrow> None)"

fun parse_step :: "token \<Rightarrow> expect \<times> frame list \<Rightarrow> (expect \<times> frame list) option" where
  "parse_step t (Value, stack) = parse_value t stack"
| "parse_step t (ValueOrEnd, stack) =
     (if t = TRBracket then parse_end t stack else parse_value t stack)"
| "parse_step t (KeyOrEnd, stack) =
     (if t = TRBrace then parse_end t stack else parse_key t stack)"
| "parse_step t (Key, stack) = parse_key t stack"
| "parse_step t (Colon, stack) = (if t = TColon then Some (Value, stack) else None)"
| "parse_step t (CommaOrEnd, stack) =
     (if t = TComma
      then (case stack of
              ArrayFrame es # rest \<Rightarrow> Some (Value, stack)
            | ObjectFrame ps # rest \<Rightarrow> Some (Key, stack)
            | _ \<Rightarrow> None)
      else parse_end t stack)"
| "parse_step t (Finished v, stack) = None"

fun parse_run :: "expect \<times> frame list \<Rightarrow> token list \<Rightarrow> (expect \<times> frame list) option" where
  "parse_run s [] = Some s"
| "parse_run s (t # ts) = (case parse_step t s of None \<Rightarrow> None | Some s' \<Rightarrow> parse_run s' ts)"

definition JSON_parse :: "jsstring \<Rightarrow> jsvalue option" where
  "JSON_parse text =
     (case tokenize text of
        None \<Rightarrow> None
      | Some ts \<Rightarrow>
          (case parse_run (Value, []) ts of
             Some (Finished v, _) \<Rightarrow> Some v
           | _ \<Rightarrow> None))"

section \<open>Line decoder\<close>

text \<open>The three events the instance emits, with their payloads.\<close>

datatype signal = Message jsvalue | Error jsstring | Exit

text \<open>
  \<open>line.replace(/,\s*\}$/, ' }')\<close>: the leftmost comma that is followed only by
  whitespace and a closing brace at the very end of the line is replaced, together with
  what follows it, by a space and a brace.
\<close>

definition ends_ws_brace :: "jsstring \<Rightarrow> bool" where
  "ends_ws_brace s = (s \<noteq> [] \<and> last s = 125 \<and> list_all is_space (butlast s))"

fun replace_trailing_comma :: "jsstring \<Rightarrow> jsstring" where
  "replace_trailing_comma [] = []"
| "replace_trailing_comma (c # cs) =
     (if c = 44 \<and> ends_ws_brace cs then [32, 125] else c # replace_trailing_comma cs)"

text \<open>
  \<open>if (message.K === undefined) message.K = ""\<close> for the keys \<open>MESSAGE\<close> and
  \<open>_HOSTNAME\<close>, which no prototype defines. An object or an array gets the property when
  it has none; reading a property of \<open>null\<close> throws a \<open>TypeError\<close>, and so does the
  assignment to a number, a string or a boolean in strict code (\<open>None\<close>).
\<close>

fun set_default :: "jsstring \<Rightarrow> jsvalue \<Rightarrow> jsvalue option" where
  "set_default k (JObject ps) =
     Some (JObject (if map_of ps k = None then put k (JString []) ps else ps))"
| "set_default k (JArray es ps) =
     Some (JArray es (if map_of ps k = None then put k (JString []) ps else ps))"
| "set_default k _ = None"

text \<open>
  Reading a value: the own property \<open>k\<close> of an object or an array (\<open>None\<close> is
  \<open>undefined\<close>), the elements of an array, and whether a value is an object or an array.
\<close>

fun own_property :: "jsvalue \<Rightarrow> jsstring \<Rightarrow> jsvalue option" where
  "own_property (JObject ps) k = map_of ps k"
| "own_property (JArray es ps) k = map_of ps k"
| "own_property _ k = None"

fun elements :: "jsvalue \<Rightarrow> jsvalue list option" where
  "elements (JArray es ps) = Some es"
| "elements _ = None"

fun is_object :: "jsvalue \<Rightarrow> bool" where
  "is_object (JObject ps) = True"
| "is_object (JArray es ps) = True"
| "is_object _ = False"

text \<open>
  The \<open>line\<close> handler: what it emits for a line. Every exception of the \<open>try\<close> block
  ends in the \<open>catch\<close>, which emits the error with the raw line.
\<close>

definition on_line :: "jsstring \<Rightarrow> signal" where
  "on_line line =
     (case JSON_parse (replace_trailing_comma line) of
        None \<Rightarrow> Error (js ''Could not parse JSON: '' @ line)
      | Some message \<Rightarrow>
          (case set_default (js ''MESSAGE'') message of
             None \<Rightarrow> Error (js ''Could not parse JSON: '' @ line)
           | Some m1 \<Rightarrow>
               (case set_default (js ''_HOSTNAME'') m1 of
                  None \<Rightarrow> Error (js ''Could not parse JSON: '' @ line)
                | Some m2 \<Rightarrow> Message m2)))"

section \<open>Process supervisor\<close>

text \<open>
  What the subprocess can do: complete a line on standard output, write a chunk to
  standard error, exit with a code (\<open>None\<close> is \<open>null\<close>: killed by a signal), or fail
  to spawn with an error message.
\<close>

datatype proc_event =
    StdoutLine jsstring
  | StderrData jsstring
  | ProcExit "int option"
  | ProcError jsstring

text \<open>\<open>this.stdErrorText += chunk.toString()\<close>\<close>

definition on_stderr_data :: "JournalCtl \<Rightarrow> jsstring \<Rightarrow> JournalCtl" where
  "on_stderr_data this chunk =
     this\<lparr>stdErrorText :=
       Some ((case stdErrorText this of None \<Rightarrow> js ''null'' | Some t \<Rightarrow> t) @ chunk)\<rparr>"

text \<open>
  The \<open>exit\<close> handler. \<open>if (code)\<close> holds for a code that is neither \<open>null\<close> nor
  zero; \<open>a ?? b\<close> is \<open>b\<close> only when \<open>a\<close> is \<open>null\<close> or \<open>undefined\<close>.
\<close>

definition on_exit :: "js_env \<Rightarrow> JournalCtl \<Rightarrow> int option \<Rightarrow> signal list" where
  "on_exit env this code =
     (case code of
        None \<Rightarrow> [Exit]
      | Some c \<Rightarrow>
          if c \<noteq> 0
          then [Error (case stdErrorText this of
                         Some t \<Rightarrow> t
                       | None \<Rightarrow> js ''Process exited with code '' @ number_toString env c),
                Exit]
          else [Exit])"

text \<open>\<open>String.prototype.includes\<close>\<close>

definition string_includes :: "jsstring \<Rightarrow> jsstring \<Rightarrow> bool" where
  "string_includes s sub = list_ex (\<lambda>i. take (length sub) (drop i s) = sub) [0 ..< Suc (length s)]"

definition on_error :: "jsstring \<Rightarrow> signal list" where
  "on_error message =
     (if string_includes message (js ''ENOENT'')
      then [Error (js ''journalctl executable not found. Is this a systemd distribution?'')]
      else if string_includes message (js ''EACCES'')
      then [Error (js ''journalctl executable not accessible.'')]
      else [Error message])"

text \<open>One event of the subprocess: the new instance state and the signals emitted.\<close>

fun handle :: "js_env \<Rightarrow> proc_event \<Rightarrow> JournalCtl \<Rightarrow> JournalCtl \<times> signal list" where
  "handle env (StdoutLine line) this = (this, [on_line line])"
| "handle env (StderrData chunk) this = (on_stderr_data this chunk, [])"
| "handle env (ProcExit code) this = (this, on_exit env this code)"
| "handle env (ProcError message) this = (this, on_error message)"

section \<open>The asynchronous generator\<close>

text \<open>
  A promise of \<open>createPromise\<close> is pending or resolved, with a message or with
  \<open>undefined\<close> (\<open>None\<close>); resolving a promise a second time has no effect.
\<close>

datatype promise = Pending | Resolved "jsvalue option"

text \<open>
  A generator object. Calling an \<open>async function*\<close> runs none of its body: the object
  starts suspended and the body runs on the first \<open>next()\<close>. Afterwards the body waits
  for a promise it has shifted from the queue, is suspended at the \<open>yield\<close>, or is
  completed, by the \<open>throw\<close> or by the \<open>return\<close> with the total count. The closure
  variables are \<open>totalEntries\<close>, \<open>resolve\<close> (the promise it resolves), the promises
  created so far and the queue \<open>messagePromises\<close> of their indices; \<open>yielded\<close> records what
  the consumer has drawn, and \<open>subscribed\<close> whether the three handlers are registered.
\<close>

datatype gen_status = SuspendedStart | Awaiting nat | SuspendedYield | Completed "error + nat"

record generator =
  status :: gen_status
  subscribed :: bool
  totalEntries :: nat
  resolve :: nat
  promises :: "promise list"
  messagePromises :: "nat list"
  yielded :: "jsvalue list"

definition createGenerator :: "JournalCtl \<Rightarrow> generator" where
  "createGenerator this =
     \<lparr> status = SuspendedStart, subscribed = False, totalEntries = 0, resolve = 0,
       promises = [], messagePromises = [], yielded = [] \<rparr>"

definition resolve_promise :: "nat \<Rightarrow> jsvalue option \<Rightarrow> promise list \<Rightarrow> promise list" where
  "resolve_promise p v ps =
     (if p < length ps \<and> ps ! p = Pending then ps[p := Resolved v] else ps)"

text \<open>The handlers the generator registers for \<open>error\<close>, \<open>message\<close> and \<open>exit\<close>.\<close>

fun gen_on :: "signal \<Rightarrow> generator \<Rightarrow> generator" where
  "gen_on (Error e) g = g\<lparr>promises := resolve_promise (resolve g) None (promises g)\<rparr>"
| "gen_on (Message message) g =
     (let oldResolve = resolve g;
          p = length (promises g)
      in g\<lparr> promises := resolve_promise oldResolve (Some message) (promises g @ [Pending]),
            resolve := p,
            messagePromises := messagePromises g @ [p],
            totalEntries := Suc (totalEntries g) \<rparr>)"
| "gen_on Exit g = g\<lparr>promises := resolve_promise (resolve g) None (promises g)\<rparr>"

text \<open>
  Truthiness of a value, for \<open>while (result = await ...)\<close>. A message is an object or an
  array and so truthy; a number is falsy when its digits before the exponent are all zero.
\<close>

fun truthy :: "jsvalue \<Rightarrow> bool" where
  "truthy (JObject ps) = True"
| "truthy (JArray es ps) = True"
| "truthy (JString s) = (s \<noteq> [])"
| "truthy (JBool b) = b"
| "truthy (JNumber n) = list_ex (\<lambda>c. 49 \<le> c \<and> c \<le> 57) (takeWhile (\<lambda>c. c \<noteq> 101 \<and> c \<noteq> 69) n)"
| "truthy JNull = False"

text \<open>\<open>messagePromises.shift()\<close> and the \<open>await\<close> of what it returns.\<close>

definition shift_await :: "generator \<Rightarrow> generator" where
  "shift_await g =
     (case messagePromises g of
        [] \<Rightarrow> g\<lparr>status := Completed (Inr (totalEntries g))\<rparr>
      | p # ps \<Rightarrow> g\<lparr>messagePromises := ps, status := Awaiting p\<rparr>)"

text \<open>
  One step of the body, as far as it can go: from the start to the first \<open>await\<close> (or
  the \<open>throw\<close>), from a resolved promise to the \<open>yield\<close> or the \<open>return\<close>, from the
  \<open>yield\<close> (on the consumer's next \<open>next()\<close>) to the following \<open>await\<close>. A body that
  waits for a pending promise stays where it is.
\<close>

definition advance :: "JournalCtl \<Rightarrow> generator \<Rightarrow> JournalCtl \<times> generator" where
  "advance this g =
     (case status g of
        SuspendedStart \<Rightarrow>
          if generatorInstanceExtists this
          then (this, g\<lparr>status := Completed (Inl OnlyOneGenerator)\<rparr>)
          else (this\<lparr>generatorInstanceExtists := True\<rparr>,
                shift_await (g\<lparr> totalEntries := 0, resolve := 0, promises := [Pending],
                                 messagePromises := [0], subscribed := True \<rparr>))
      | Awaiting p \<Rightarrow>
          (this,
           if p < length (promises g)
           then (case promises g ! p of
                   Pending \<Rightarrow> g
                 | Resolved None \<Rightarrow> g\<lparr>status := Completed (Inr (totalEntries g))\<rparr>
                 | Resolved (Some result) \<Rightarrow>
                     if truthy result
                     then g\<lparr>yielded := yielded g @ [result], status := SuspendedYield\<rparr>
                     else g\<lparr>status := Completed (Inr (totalEntries g))\<rparr>)
           else g)
      | SuspendedYield \<Rightarrow> (this, shift_await g)
      | Completed r \<Rightarrow> (this, g))"

section \<open>Runs of an instance\<close>

text \<open>
  The instance, the generator objects created on it, and the signals emitted so far, which
  are what a subscriber attached to all three events from the start has received. The
  model covers instances with a listener for \<open>error\<close> (the node event emitter throws
  on an \<open>error\<close> event without one); a generator that has started is such a listener.
\<close>

record world =
  inst :: JournalCtl
  gens :: "generator list"
  emitted :: "signal list"

datatype action = ProcEvent proc_event | CreateGenerator | Next nat

definition deliver :: "signal list \<Rightarrow> generator \<Rightarrow> generator" where
  "deliver sigs g = (if subscribed g then foldl (\<lambda>g s. gen_on s g) g sigs else g)"

fun step :: "js_env \<Rightarrow> world \<Rightarrow> action \<Rightarrow> world" where
  "step env w (ProcEvent ev) =
     (let (this', sigs) = handle env ev (inst w)
      in w\<lparr> inst := this', gens := map (deliver sigs) (gens w), emitted := emitted w @ sigs \<rparr>)"
| "step env w CreateGenerator = w\<lparr>gens := gens w @ [createGenerator (inst w)]\<rparr>"
| "step env w (Next i) =
     (if i < length (gens w)
      then (let (this', g) = advance (inst w) (gens w ! i)
            in w\<lparr> inst := this', gens := (gens w)[i := g] \<rparr>)
      else w)"

definition run :: "js_env \<Rightarrow> world \<Rightarrow> action list \<Rightarrow> world" where
  "run env w acts = foldl (step env) w acts"

text \<open>A new instance with no generator and nothing emitted.\<close>

definition start :: "JournalCtl \<Rightarrow> world" where
  "start j = \<lparr> inst = j, gens = [], emitted = [] \<rparr>"



section \<open>An example runtime\<close>

text \<open>
  A runtime for the worked examples: the time zone is UTC, \<open>new Date(s)\<close> reads the
  strings \<open>validateDate\<close> admits (other strings are not needed by the constructor and
  are left unparsed), and \<open>toISOString\<close> prints the proleptic Gregorian date.
\<close>

definition days_from_civil :: "int \<Rightarrow> int \<Rightarrow> int \<Rightarrow> int" where
  "days_from_civil y m d =
     (let y1 = (if m \<le> 2 then y - 1 else y);
          era = y1 div 400;
          yoe = y1 - era * 400;
          doy = (153 * (if m > 2 then m - 3 else m + 9) + 2) div 5 + d - 1;
          doe = yoe * 365 + yoe div 4 - yoe div 100 + doy
      in era * 146097 + doe - 719468)"

definition civil_from_days :: "int \<Rightarrow> int \<times> int \<times> int" where
  "civil_from_days z0 =
     (let z = z0 + 719468;
          era = z div 146097;
          doe = z - era * 146097;
          yoe = (doe - doe div 1460 + doe div 36524 - doe div 146096) div 365;
          doy = doe - (365 * yoe + yoe div 4 - yoe div 100);
          mp = (5 * doy + 2) div 153;
          d = doy - (153 * mp + 2) div 5 + 1;
          m = (if mp < 10 then mp + 3 else mp - 9)
      in (yoe + era * 400 + (if m \<le> 2 then 1 else 0), m, d))"

definition pad :: "nat \<Rightarrow> int \<Rightarrow> jsstring" where
  "pad k n = replicate (k - length (decimal (nat n))) 48 @ decimal (nat n)"

text \<open>
  \<open>new Date(s).getTime()\<close> as V8 computes it in the time zone UTC. A date alone is in
  the date format of ECMAScript: the fields are year, month and day as written. A date
  followed by a time is not, and goes through the engine's older parser: three numbers
  of which the first can be a day of the month (1 to 31) are read as month, day and
  year, a year from 0 to 49 is taken in the 2000s and a year from 50 to 99 in the 1900s,
  and the hour 24 is admitted with zero minutes and seconds. The written month and day
  are checked in both cases; a day beyond the end of its month runs into the next month.
\<close>

definition utc_getTime :: "jsstring \<Rightarrow> int option" where
  "utc_getTime s =
     (if \<not> RegExp_DateString s then None
      else let c0 = digits_value (take 4 s);
               c1 = digits_value (take 2 (drop 5 s));
               c2 = digits_value (take 2 (drop 8 s));
               h = digits_value (take 2 (drop 11 s));
               mi = digits_value (take 2 (drop 14 s));
               sec = digits_value (take 2 (drop 17 s));
               iso = (length s = 10);
               ymd = (if iso then True else c0 < 1 \<or> 31 < c0);
               y0 = (if ymd then c0 else c2);
               mo = (if ymd then c1 else c0);
               d = (if ymd then c2 else c1);
               y = (if iso then y0 else if y0 \<le> 49 then y0 + 2000
                    else if y0 \<le> 99 then y0 + 1900 else y0)
           in if 1 \<le> c1 \<and> c1 \<le> 12 \<and> 1 \<le> c2 \<and> c2 \<le> 31 \<and> 1 \<le> mo \<and> mo \<le> 12
                 \<and> 1 \<le> d \<and> d \<le> 31
                 \<and> (h \<le> 23 \<and> mi \<le> 59 \<and> sec \<le> 59 \<or> h = 24 \<and> mi = 0 \<and> sec = 0)
              then Some (((((days_from_civil y mo 1 + d - 1) * 24 + h) * 60 + mi) * 60 + sec) * 1000)
              else None)"

definition utc_toISOString :: "int \<Rightarrow> jsstring" where
  "utc_toISOString t =
     (let day = t div 86400000;
          ms = t mod 86400000;
          (y, m, d) = civil_from_days day
      in (if 0 \<le> y \<and> y \<le> 9999 then pad 4 y
          else (if y < 0 then js ''-'' else js ''+'') @ pad 6 \<bar>y\<bar>)
         @ js ''-'' @ pad 2 m @ js ''-'' @ pad 2 d @ js ''T''
         @ pad 2 (ms div 3600000) @ js '':'' @ pad 2 (ms div 60000 mod 60)
         @ js '':'' @ pad 2 (ms div 1000 mod 60) @ js ''.'' @ pad 3 (ms mod 1000) @ js ''Z'')"

text \<open>
  \<open>Number::toString\<close> for an integer-valued double, as ECMAScript prescribes it with the
  recommended choice of the last digit. \<open>to_double\<close> rounds an integer to the nearest
  double, ties to the even significand (overflow to infinity is not modelled: it starts
  above every double). \<open>shortest\<close> finds, for the least number \<open>k\<close> of significant
  digits, the integer with \<open>k\<close> significant digits that rounds to the given double and
  is closest to it; the string is that integer's digits, or the exponent notation when
  they are more than 21.
\<close>

function binary_exponent :: "nat \<Rightarrow> nat" where
  "binary_exponent n = (if n < 2 ^ 53 then 0 else Suc (binary_exponent (n div 2)))"
  by pat_completeness auto
termination
  by (relation "measure id") auto

definition to_double :: "nat \<Rightarrow> nat" where
  "to_double n =
     (let e = binary_exponent n;
          q = n div 2 ^ e;
          r = n mod 2 ^ e
      in if e = 0 then n
         else if 2 ^ (e - 1) < r \<or> (r = 2 ^ (e - 1) \<and> q mod 2 = 1) then (q + 1) * 2 ^ e
         else q * 2 ^ e)"

definition distance :: "nat \<Rightarrow> nat \<Rightarrow> nat" where
  "distance a b = (if a \<le> b then b - a else a - b)"

fun shortest_from :: "nat \<Rightarrow> nat \<Rightarrow> nat \<Rightarrow> nat" where
  "shortest_from x 0 p = x"
| "shortest_from x (Suc z) p =
     (let lo = x div p * p;
          hi = lo + p;
          lo_ok = (to_double lo = x);
          hi_ok = (to_double hi = x)
      in if lo_ok \<and> hi_ok
         then (if distance lo x < distance hi x
                  \<or> (distance lo x = distance hi x \<and> x div p mod 2 = 0) then lo else hi)
         else if lo_ok then lo
         else if hi_ok then hi
         else shortest_from x z (p div 10))"

definition shortest :: "nat \<Rightarrow> nat" where
  "shortest x = shortest_from x (length (decimal x) - 1) (10 ^ (length (decimal x) - 1))"

definition exponent_notation :: "nat \<Rightarrow> jsstring" where
  "exponent_notation v =
     (let ds = decimal v;
          mant = rev (dropWhile (\<lambda>c. c = 48) (rev ds))
      in take 1 mant @ (if length mant > 1 then js ''.'' @ drop 1 mant else [])
         @ js ''e+'' @ decimal (length ds - 1))"

definition shortest_toString :: "int \<Rightarrow> jsstring" where
  "shortest_toString i =
     (let v = shortest (nat \<bar>i\<bar>)
      in (if i < 0 then js ''-'' else [])
         @ (if length (decimal v) \<le> 21 then decimal v else exponent_notation v))"

definition utc_env :: js_env where
  "utc_env = \<lparr> Date_getTime = utc_getTime, Date_toISOString = utc_toISOString,
               Number_toString = shortest_toString \<rparr>"


text \<open>The empty options object \<open>{}\<close>.\<close>

definition no_options :: JournalCtlOptions where
  "no_options = \<lparr> opt_all = None, opt_lines = None, opt_since = None, opt_until = None,
      opt_identifier = None, opt_unit = None, opt_filter = None, opt_priority = None \<rparr>"

text \<open>The instance that \<open>new JournalCtl()\<close> constructs.\<close>

definition default_instance :: JournalCtl where
  "default_instance = \<lparr> journalCtl = [js ''-o'', js ''json'', js ''-f'', js ''-n'', js ''10''],
       stdErrorText = Some [], generatorInstanceExtists = False \<rparr>"

section \<open>Invariants of a run\<close>













section \<open>Properties\<close>

subsection \<open>Helper lemmas\<close>

declare decimal.simps [simp del]

declare binary_exponent.simps [simp del]

lemma js_eq_Nil [simp]: "js s = [] \<longleftrightarrow> s = []"
  by (simp add: js_def)

lemma and_then_Inl [simp]: "and_then (Inl e) f = Inl e"
  by (simp add: and_then_def)

lemma and_then_Inr [simp]: "and_then (Inr x) f = f x"
  by (simp add: and_then_def)

lemma and_then_eq_Inr:
  "and_then m f = Inr r \<longleftrightarrow> (\<exists>x. m = Inr x \<and> f x = Inr r)"
  by (cases m) simp_all


lemma lines_args_Inr:
  assumes "lines_args env options = Inr tL"
  shows "tL = (case opt_lines options of
                None \<Rightarrow> if \<not> truthy_date (opt_since options) \<and> \<not> truthy_date (opt_until options)
                        then [js ''-n'', js ''10''] else []
              | Some n \<Rightarrow> (case n of Integer i \<Rightarrow> [js ''-n'', number_toString env i] | _ \<Rightarrow> []))
         \<and> (case opt_lines options of None \<Rightarrow> True
              | Some n \<Rightarrow> (case n of Integer i \<Rightarrow> 0 \<le> i | _ \<Rightarrow> False))"
proof (cases "opt_lines options")
  case None
  with assms show ?thesis by (auto simp: lines_args_def split: if_splits)
next
  case (Some n)
  with assms show ?thesis
    by (cases n) (auto simp: lines_args_def split: if_splits)
qed

lemma constructor_Inr:
  assumes "constructor env options outputFields = Inr j"
  shows "\<exists>tU tL tS tP tI tN tF tO.
           until_args env (opt_until options) = Inr tU
         \<and> lines_args env options = Inr tL
         \<and> since_args env (opt_since options) = Inr tS
         \<and> since_until_check env options = Inr ()
         \<and> priority_args env (opt_priority options) = Inr tP
         \<and> identifier_args (opt_identifier options) = Inr tI
         \<and> unit_args (opt_unit options) = Inr tN
         \<and> filter_args (opt_filter options) = Inr tF
         \<and> outputFields_args outputFields = Inr tO
         \<and> j = \<lparr> journalCtl = [js ''-o'', js ''json''] @ tU @ all_args (opt_all options)
                     @ tL @ tS @ tP @ tI @ tN @ tF @ tO,
                  stdErrorText = Some [], generatorInstanceExtists = False \<rparr>"
  using assms unfolding constructor_def and_then_eq_Inr by auto

lemma decimal_digit: "n < 10 \<Longrightarrow> decimal n = [48 + n]"
  by (simp add: decimal.simps)

lemma number_toString_digit: "0 \<le> i \<Longrightarrow> i < 10 \<Longrightarrow> number_toString env i = [48 + nat i]"
  by (simp add: number_toString_def decimal_digit)

lemma truthy_date_empty: "truthy_date (Some (DateString [])) = truthy_date None"
  by simp

lemma validatePriority_ok: "0 \<le> a \<Longrightarrow> a \<le> 7 \<Longrightarrow> validatePriority (Integer a) = Inr a"
  by (simp add: validatePriority_def)

lemma priority_args_range:
  assumes "0 \<le> a" "a \<le> 7" "0 \<le> b" "b \<le> 7"
  shows "priority_args env (Some (Range (Integer a) (Integer b)))
         = Inr [js ''-p'', [48 + nat a] @ js ''..'' @ [48 + nat b]]"
  using assms by (simp add: validatePriority_ok number_toString_digit)

lemma replace_trailing_comma_Cons:
  "replace_trailing_comma (c # cs) =
     (if c = 44 then (if ends_ws_brace cs then [32, 125] else c # replace_trailing_comma cs)
      else c # replace_trailing_comma cs)"
  by simp

lemma ends_ws_brace_Nil: "ends_ws_brace [] = False"
  by (simp add: ends_ws_brace_def)

lemma ends_ws_brace_Cons:
  "ends_ws_brace (c # cs) =
     (if cs = [] then c = 125 else if is_space c then ends_ws_brace cs else False)"
  by (simp add: ends_ws_brace_def)

lemma js_eq_iff [simp]: "js s = js t \<longleftrightarrow> s = t"
proof -
  have "inj (of_char :: char \<Rightarrow> nat)"
    by (rule injI) simp
  then show ?thesis
    by (simp add: js_def inj_map_eq_map)
qed

lemma js_Nil_eq [simp]: "[] = js s \<longleftrightarrow> s = []"
  by (simp add: js_def)

lemmas json_eval = JSON_parse_def tokenize_def lex_from_def start_token_def is_json_ws_def is_digit_def
  is_space_def ends_ws_brace_Nil ends_ws_brace_Cons js_def escape_char_def hex_value_def
  parse_value_def parse_key_def parse_end_def replace_trailing_comma_Cons

text \<open>A key that does not start with a digit is not an array index.\<close>

lemma is_array_index_Cons [simp]:
  "is_array_index (c # cs) =
     (if 48 \<le> c \<and> c \<le> 57
      then list_all is_digit cs \<and> (if c = 48 then cs = [] else True)
           \<and> digits_value (c # cs) < 4294967295
      else False)"
  by (auto simp: is_array_index_def is_digit_def)

lemma is_array_index_js [simp]:
  "is_array_index (js (c # cs)) =
     (if 48 \<le> (of_char c :: nat) \<and> (of_char c :: nat) \<le> 57
      then is_array_index (of_char c # js cs) else False)"
  by (simp add: js_def)

lemma map_of_put: "map_of (put k v ps) = (map_of ps)(k \<mapsto> v)"
  by (induction ps) (auto simp: fun_upd_twist)

lemma set_default_Some:
  assumes "set_default k v = Some r"
  shows "is_object v \<and> is_object r \<and> elements r = elements v
     \<and> own_property r k = Some (case own_property v k of None \<Rightarrow> JString [] | Some x \<Rightarrow> x)
     \<and> (\<forall>k'. k' \<noteq> k \<longrightarrow> own_property r k' = own_property v k')"
  using assms by (cases v) (auto simp: map_of_put)

lemma set_default_object: "is_object v \<Longrightarrow> \<exists>r. set_default k v = Some r"
  by (cases v) auto

lemma on_line_Message:
  "on_line line = Message r \<longleftrightarrow>
     (\<exists>v m. JSON_parse (replace_trailing_comma line) = Some v
          \<and> set_default (js ''MESSAGE'') v = Some m \<and> set_default (js ''_HOSTNAME'') m = Some r)"
  by (auto simp: on_line_def split: option.splits)

lemma MESSAGE_neq_HOSTNAME: "js ''MESSAGE'' \<noteq> js ''_HOSTNAME''"
  by (simp add: js_def)

subsection \<open>Claims about construction\<close>





text \<open>The digits that \<open>decimal\<close> prints and the number they denote.\<close>

lemma digits_value_snoc: "digits_value (ds @ [c]) = 10 * digits_value ds + (int c - 48)"
  by (simp add: digits_value_def)

lemma decimal_not_Nil: "decimal n \<noteq> []"
  by (subst decimal.simps) simp

lemma decimal_is_digit: "list_all is_digit (decimal n)"
proof (induction n rule: decimal.induct)
  case (1 n)
  show ?case
  proof (cases "n < 10")
    case True
    then show ?thesis by (subst decimal.simps) (simp add: is_digit_def)
  next
    case False
    have "n mod 10 < 10" by simp
    then have "is_digit (48 + n mod 10)" unfolding is_digit_def by linarith
    with False 1 show ?thesis by (subst decimal.simps) simp
  qed
qed

lemma digits_value_decimal: "digits_value (decimal n) = int n"
proof (induction n rule: decimal.induct)
  case (1 n)
  show ?case
  proof (cases "n < 10")
    case True
    then show ?thesis by (subst decimal.simps) (simp add: digits_value_def)
  next
    case False
    with 1 have "digits_value (decimal (n div 10)) = int (n div 10)" by simp
    with False show ?thesis
      by (subst decimal.simps) (simp add: digits_value_snoc zdiv_int zmod_int)
  qed
qed

lemma decimal_leading_zero: "hd (decimal n) = 48 \<Longrightarrow> n = 0"
proof (induction n rule: decimal.induct)
  case (1 n)
  show ?case
  proof (cases "n < 10")
    case True
    with 1(2) show ?thesis by (simp add: decimal_digit)
  next
    case False
    have "decimal n = decimal (n div 10) @ [48 + n mod 10]"
      using False by (subst decimal.simps) simp
    with 1(2) have "hd (decimal (n div 10)) = 48" by (simp add: decimal_not_Nil)
    with 1(1) False have "n div 10 = 0" by simp
    with False show ?thesis by simp
  qed
qed

lemma number_toString_small:
  assumes "0 \<le> i" and "i < 2 ^ 53"
  shows "number_toString env i = decimal (nat i)"
  using assms by (simp add: number_toString_def)

lemma number_toString_large:
  assumes "2 ^ 53 \<le> i"
  shows "number_toString env i = Number_toString env i"
proof -
  from assms have "\<not> \<bar>i\<bar> < 2 ^ 53" by simp
  then show ?thesis unfolding number_toString_def by (rule if_not_P)
qed

text \<open>The line-count block, case by case.\<close>

lemma lines_args_eq:
  "lines_args env options =
     (case opt_lines options of
        None \<Rightarrow> Inr (if \<not> truthy_date (opt_since options) \<and> \<not> truthy_date (opt_until options)
                    then [js ''-n'', js ''10''] else [])
      | Some n \<Rightarrow> (case n of
                     Integer i \<Rightarrow> if 0 \<le> i then Inr [js ''-n'', number_toString env i]
                                  else Inl (NotPositiveInteger n)
                   | _ \<Rightarrow> Inl (NotAnInteger n)))"
proof (cases "opt_lines options")
  case None
  then show ?thesis by (auto simp: lines_args_def)
next
  case (Some n)
  then show ?thesis by (cases n) (auto simp: lines_args_def)
qed

lemma constructor_blocks:
  assumes "until_args env (opt_until options) = Inr tU"
    and "lines_args env options = Inr tL"
    and "since_args env (opt_since options) = Inr tS"
    and "since_until_check env options = Inr ()"
    and "priority_args env (opt_priority options) = Inr tP"
    and "identifier_args (opt_identifier options) = Inr tI"
    and "unit_args (opt_unit options) = Inr tN"
    and "filter_args (opt_filter options) = Inr tF"
    and "outputFields_args outputFields = Inr tO"
  shows "constructor env options outputFields
     = Inr \<lparr> journalCtl = [js ''-o'', js ''json''] @ tU @ all_args (opt_all options)
                 @ tL @ tS @ tP @ tI @ tN @ tF @ tO,
             stdErrorText = Some [], generatorInstanceExtists = False \<rparr>"
  unfolding constructor_def by (simp add: assms)

text \<open>The numbers of the examples in the example runtime.\<close>

lemma shortest_from_numeral:
  "shortest_from x (numeral k) p =
     (if to_double (x div p * p) = x
      then (if to_double (x div p * p + p) = x
            then (if distance (x div p * p) x < distance (x div p * p + p) x
                     \<or> (distance (x div p * p) x = distance (x div p * p + p) x \<and> x div p mod 2 = 0)
                  then x div p * p else x div p * p + p)
            else x div p * p)
      else if to_double (x div p * p + p) = x then x div p * p + p
      else shortest_from x (pred_numeral k) (p div 10))"
  by (simp add: numeral_eq_Suc Let_def)

lemma length_decimal_2_60: "length (decimal 1152921504606846976) = 19"
  by (simp add: decimal.simps)

lemma shortest_from_2_60:
  "shortest_from 1152921504606846976 18 1000000000000000000 = 1152921504606847000"
  by (simp add: shortest_from_numeral to_double_def binary_exponent.simps Let_def distance_def)

lemma shortest_2_60: "shortest 1152921504606846976 = 1152921504606847000"
  by (simp add: shortest_def length_decimal_2_60 shortest_from_2_60)

lemma decimal_shortest_2_60: "decimal 1152921504606847000 = js ''1152921504606847000''"
  by (simp add: decimal.simps js_def)

lemma shortest_toString_2_60:
  "shortest_toString 1152921504606846976 = js ''1152921504606847000''"
  unfolding shortest_toString_def Let_def
  by (simp add: shortest_2_60 decimal_shortest_2_60) (simp add: js_def)

text \<open>
  C8. Construction succeeds, with the instance \<open>j\<close>, exactly when the line limit is absent
  or an integer that is not negative (zero included), every other option passes its own
  block, and the argument list of \<open>j\<close> is \<open>-o json\<close>, the tokens of \<open>until\<close> and \<open>all\<close>,
  the line-count tokens, and then the tokens of the other options, none of which reads
  \<open>lines\<close>. The line-count tokens are \<open>-n 10\<close> when no limit is given and neither \<open>since\<close>
  nor \<open>until\<close> is set (truthy), \<open>-n <limit>\<close> when a limit is given, and nothing
  otherwise. The limit is printed as the template literal prints it: below \<open>2^53\<close> these
  are the decimal digits of the limit, without a leading zero unless the limit is zero,
  and from \<open>2^53\<close> on it is what \<open>Number::toString\<close> of the runtime gives.
\<close>

theorem line_count_tokens:
  "(constructor env options outputFields = Inr j \<longleftrightarrow>
      (case opt_lines options of None \<Rightarrow> True
       | Some n \<Rightarrow> (case n of Integer i \<Rightarrow> 0 \<le> i | _ \<Rightarrow> False))
    \<and> (\<exists>tU tS tP tI tN tF tO.
          until_args env (opt_until options) = Inr tU
        \<and> since_args env (opt_since options) = Inr tS
        \<and> since_until_check env options = Inr ()
        \<and> priority_args env (opt_priority options) = Inr tP
        \<and> identifier_args (opt_identifier options) = Inr tI
        \<and> unit_args (opt_unit options) = Inr tN
        \<and> filter_args (opt_filter options) = Inr tF
        \<and> outputFields_args outputFields = Inr tO
        \<and> j = \<lparr> journalCtl = [js ''-o'', js ''json''] @ tU @ all_args (opt_all options)
             @ (case opt_lines options of
                  None \<Rightarrow> if \<not> truthy_date (opt_since options) \<and> \<not> truthy_date (opt_until options)
                          then [js ''-n'', js ''10''] else []
                | Some n \<Rightarrow> (case n of Integer i \<Rightarrow> [js ''-n'', number_toString env i] | _ \<Rightarrow> []))
             @ tS @ tP @ tI @ tN @ tF @ tO,
             stdErrorText = Some [], generatorInstanceExtists = False \<rparr>))
   \<and> (\<forall>i. 0 \<le> i \<and> i < 2 ^ 53 \<longrightarrow>
          list_all is_digit (number_toString env i)
        \<and> digits_value (number_toString env i) = i
        \<and> (hd (number_toString env i) = 48 \<longrightarrow> i = 0))
   \<and> (\<forall>i. 2 ^ 53 \<le> i \<longrightarrow> number_toString env i = Number_toString env i)"
proof (intro conjI)
  let ?valid = "case opt_lines options of None \<Rightarrow> True
       | Some n \<Rightarrow> (case n of Integer i \<Rightarrow> 0 \<le> i | _ \<Rightarrow> False)"
  let ?tokens = "case opt_lines options of
                  None \<Rightarrow> if \<not> truthy_date (opt_since options) \<and> \<not> truthy_date (opt_until options)
                          then [js ''-n'', js ''10''] else []
                | Some n \<Rightarrow> (case n of Integer i \<Rightarrow> [js ''-n'', number_toString env i] | _ \<Rightarrow> [])"
  let ?blocks = "\<exists>tU tS tP tI tN tF tO.
          until_args env (opt_until options) = Inr tU
        \<and> since_args env (opt_since options) = Inr tS
        \<and> since_until_check env options = Inr ()
        \<and> priority_args env (opt_priority options) = Inr tP
        \<and> identifier_args (opt_identifier options) = Inr tI
        \<and> unit_args (opt_unit options) = Inr tN
        \<and> filter_args (opt_filter options) = Inr tF
        \<and> outputFields_args outputFields = Inr tO
        \<and> j = \<lparr> journalCtl = [js ''-o'', js ''json''] @ tU @ all_args (opt_all options)
             @ ?tokens @ tS @ tP @ tI @ tN @ tF @ tO,
             stdErrorText = Some [], generatorInstanceExtists = False \<rparr>"
  show "constructor env options outputFields = Inr j \<longleftrightarrow> ?valid \<and> ?blocks"
  proof
    assume "constructor env options outputFields = Inr j"
    from constructor_Inr [OF this] obtain tU tL tS tP tI tN tF tO where
      b: "until_args env (opt_until options) = Inr tU"
         "lines_args env options = Inr tL"
         "since_args env (opt_since options) = Inr tS"
         "since_until_check env options = Inr ()"
         "priority_args env (opt_priority options) = Inr tP"
         "identifier_args (opt_identifier options) = Inr tI"
         "unit_args (opt_unit options) = Inr tN"
         "filter_args (opt_filter options) = Inr tF"
         "outputFields_args outputFields = Inr tO"
      and j: "j = \<lparr> journalCtl = [js ''-o'', js ''json''] @ tU @ all_args (opt_all options)
                       @ tL @ tS @ tP @ tI @ tN @ tF @ tO,
                    stdErrorText = Some [], generatorInstanceExtists = False \<rparr>"
      by blast
    from lines_args_Inr [OF b(2)] have L: "tL = ?tokens" and v: ?valid
      by blast+
    from b j L have ?blocks by blast
    with v show "?valid \<and> ?blocks" ..
  next
    assume a: "?valid \<and> ?blocks"
    then have v: ?valid ..
    from a obtain tU tS tP tI tN tF tO where
      b: "until_args env (opt_until options) = Inr tU"
         "since_args env (opt_since options) = Inr tS"
         "since_until_check env options = Inr ()"
         "priority_args env (opt_priority options) = Inr tP"
         "identifier_args (opt_identifier options) = Inr tI"
         "unit_args (opt_unit options) = Inr tN"
         "filter_args (opt_filter options) = Inr tF"
         "outputFields_args outputFields = Inr tO"
      and j: "j = \<lparr> journalCtl = [js ''-o'', js ''json''] @ tU @ all_args (opt_all options)
             @ ?tokens @ tS @ tP @ tI @ tN @ tF @ tO,
             stdErrorText = Some [], generatorInstanceExtists = False \<rparr>"
      by blast
    from v have l: "lines_args env options = Inr ?tokens"
      unfolding lines_args_eq by (auto split: option.splits jsnumber.splits)
    from constructor_blocks [OF b(1) l b(2-8)] j
    show "constructor env options outputFields = Inr j" by simp
  qed
next
  show "\<forall>i. 0 \<le> i \<and> i < 2 ^ 53 \<longrightarrow>
          list_all is_digit (number_toString env i)
        \<and> digits_value (number_toString env i) = i
        \<and> (hd (number_toString env i) = 48 \<longrightarrow> i = 0)"
  proof (intro allI impI)
    fix i :: int assume a: "0 \<le> i \<and> i < 2 ^ 53"
    then have e: "number_toString env i = decimal (nat i)"
      by (simp add: number_toString_small)
    have "hd (decimal (nat i)) = 48 \<longrightarrow> i = 0"
    proof
      assume "hd (decimal (nat i)) = 48"
      then have "nat i = 0" by (rule decimal_leading_zero)
      with a show "i = 0" by simp
    qed
    with a show "list_all is_digit (number_toString env i)
        \<and> digits_value (number_toString env i) = i
        \<and> (hd (number_toString env i) = 48 \<longrightarrow> i = 0)"
      unfolding e by (simp add: decimal_is_digit digits_value_decimal)
  qed
next
  show "\<forall>i. 2 ^ 53 \<le> i \<longrightarrow> number_toString env i = Number_toString env i"
    by (simp add: number_toString_large)
qed

text \<open>
  In the example runtime: the limit 0 is accepted and gives \<open>-n 0\<close>, the limit 25 gives
  \<open>-n 25\<close>, the limit \<open>2^60\<close> gives \<open>-n 1152921504606847000\<close>, the shortest digits of
  that double, and a limit that is not a number makes construction fail.
\<close>

theorem line_count_tokens_witness:
  "constructor utc_env (no_options\<lparr>opt_lines := Some (Integer 0)\<rparr>) None
     = Inr \<lparr> journalCtl = [js ''-o'', js ''json'', js ''-f'', js ''-n'', js ''0''],
             stdErrorText = Some [], generatorInstanceExtists = False \<rparr>
   \<and> constructor utc_env (no_options\<lparr>opt_lines := Some (Integer 25)\<rparr>) None
     = Inr \<lparr> journalCtl = [js ''-o'', js ''json'', js ''-f'', js ''-n'', js ''25''],
             stdErrorText = Some [], generatorInstanceExtists = False \<rparr>
   \<and> constructor utc_env (no_options\<lparr>opt_lines := Some (Integer (2 ^ 60))\<rparr>) None
     = Inr \<lparr> journalCtl = [js ''-o'', js ''json'', js ''-f'', js ''-n'',
                            js ''1152921504606847000''],
             stdErrorText = Some [], generatorInstanceExtists = False \<rparr>
   \<and> (\<forall>j. constructor utc_env (no_options\<lparr>opt_lines := Some NaN\<rparr>) None \<noteq> Inr j)
   \<and> (\<forall>j. constructor utc_env (no_options\<lparr>opt_lines := Some (Integer (- 1))\<rparr>) None \<noteq> Inr j)
   \<and> digits_value (number_toString utc_env 25) = 25"
proof -
  have zero: "number_toString utc_env 0 = js ''0''"
    by (simp add: number_toString_digit js_def)
  have "(0::int) \<le> 25 \<and> (25::int) < 2 ^ 53" by simp
  with line_count_tokens [of utc_env no_options None default_instance]
  have dv: "digits_value (number_toString utc_env 25) = 25" by blast
  have n25: "number_toString utc_env 25 = js ''25''"
    by (simp add: number_toString_def decimal.simps js_def)
  have "(2::int) ^ 53 \<le> 2 ^ 60" by simp
  with line_count_tokens [of utc_env no_options None default_instance]
  have "number_toString utc_env (2 ^ 60) = Number_toString utc_env (2 ^ 60)" by blast
  then have big: "number_toString utc_env 1152921504606846976 = js ''1152921504606847000''"
    by (simp add: utc_env_def shortest_toString_2_60)
  have blocks: "until_args utc_env None = Inr [js ''-f'']" "since_args utc_env None = Inr []"
    "priority_args utc_env None = Inr []" "identifier_args None = Inr []"
    "unit_args None = Inr []" "filter_args None = Inr []" "outputFields_args None = Inr []"
    by (simp_all add: until_args_def since_args_def unit_args_def)
  have 1: "constructor utc_env (no_options\<lparr>opt_lines := Some (Integer 0)\<rparr>) None
     = Inr \<lparr> journalCtl = [js ''-o'', js ''json'', js ''-f'', js ''-n'', js ''0''],
             stdErrorText = Some [], generatorInstanceExtists = False \<rparr>"
    unfolding line_count_tokens [THEN conjunct1]
    by (simp add: no_options_def blocks since_until_check_def all_args_def zero)
  have 2: "constructor utc_env (no_options\<lparr>opt_lines := Some (Integer 25)\<rparr>) None
     = Inr \<lparr> journalCtl = [js ''-o'', js ''json'', js ''-f'', js ''-n'', js ''25''],
             stdErrorText = Some [], generatorInstanceExtists = False \<rparr>"
    unfolding line_count_tokens [THEN conjunct1]
    by (simp add: no_options_def blocks since_until_check_def all_args_def n25)
  have 3: "constructor utc_env (no_options\<lparr>opt_lines := Some (Integer (2 ^ 60))\<rparr>) None
     = Inr \<lparr> journalCtl = [js ''-o'', js ''json'', js ''-f'', js ''-n'',
                            js ''1152921504606847000''],
             stdErrorText = Some [], generatorInstanceExtists = False \<rparr>"
    unfolding line_count_tokens [THEN conjunct1]
    by (simp add: no_options_def blocks since_until_check_def all_args_def big)
  have 4: "\<forall>j. constructor utc_env (no_options\<lparr>opt_lines := Some NaN\<rparr>) None \<noteq> Inr j"
    unfolding line_count_tokens [THEN conjunct1] by simp
  have 5: "\<forall>j. constructor utc_env (no_options\<lparr>opt_lines := Some (Integer (- 1))\<rparr>) None \<noteq> Inr j"
    unfolding line_count_tokens [THEN conjunct1] by simp
  from 1 2 3 4 5 dv show ?thesis by blast
qed

text \<open>
  C9. An empty string for \<open>unit\<close>, \<open>since\<close> or \<open>until\<close> is treated as if the option were
  absent: construction gives the same result (the same argument list, or the same error of
  another option) as without the option, so no validation of it runs and no \<open>-u\<close>, \<open>-S\<close>
  or \<open>-U\<close> is pushed and \<open>-f\<close> stays. The unit validator itself rejects the empty string.
  With all three empty and nothing else given, construction succeeds with the default
  arguments.
\<close>

theorem empty_string_options_absent:
  "constructor env (options\<lparr>opt_unit := Some []\<rparr>) outputFields
     = constructor env (options\<lparr>opt_unit := None\<rparr>) outputFields
   \<and> constructor env (options\<lparr>opt_since := Some (DateString [])\<rparr>) outputFields
     = constructor env (options\<lparr>opt_since := None\<rparr>) outputFields
   \<and> constructor env (options\<lparr>opt_until := Some (DateString [])\<rparr>) outputFields
     = constructor env (options\<lparr>opt_until := None\<rparr>) outputFields
   \<and> validateUnit [] = Inl (NotValidUnit [])
   \<and> constructor env (no_options\<lparr>opt_unit := Some [], opt_since := Some (DateString []),
                                   opt_until := Some (DateString [])\<rparr>) None
     = Inr \<lparr> journalCtl = [js ''-o'', js ''json'', js ''-f'', js ''-n'', js ''10''],
             stdErrorText = Some [], generatorInstanceExtists = False \<rparr>"
  by (simp add: constructor_def no_options_def until_args_def lines_args_def since_args_def
        since_until_check_def unit_args_def all_args_def validateUnit_def)

text \<open>
  C10. For a priority range whose bounds are integers in \<open>[0,7]\<close>, in any order,
  construction succeeds whenever it succeeds without the priority, and the argument list
  is the one without the priority with \<open>-p\<close> and \<open>from..to\<close> inserted: the two bounds are
  validated one by one and never compared.
\<close>

theorem priority_range_not_ordered:
  assumes "0 \<le> a" and "a \<le> 7" and "0 \<le> b" and "b \<le> 7"
    and "constructor env (options\<lparr>opt_priority := None\<rparr>) outputFields = Inr j"
  shows "\<exists>pre post. journalCtl j = pre @ post
     \<and> constructor env (options\<lparr>opt_priority := Some (Range (Integer a) (Integer b))\<rparr>) outputFields
        = Inr (j\<lparr>journalCtl := pre @ [js ''-p'', [48 + nat a] @ js ''..'' @ [48 + nat b]] @ post\<rparr>)"
proof -
  let ?o = "options\<lparr>opt_priority := None\<rparr>"
  let ?r = "options\<lparr>opt_priority := Some (Range (Integer a) (Integer b))\<rparr>"
  from constructor_Inr [OF assms(5)] obtain tU tL tS tP tI tN tF tO where
    b: "until_args env (opt_until ?o) = Inr tU"
       "lines_args env ?o = Inr tL"
       "since_args env (opt_since ?o) = Inr tS"
       "since_until_check env ?o = Inr ()"
       "priority_args env (opt_priority ?o) = Inr tP"
       "identifier_args (opt_identifier ?o) = Inr tI"
       "unit_args (opt_unit ?o) = Inr tN"
       "filter_args (opt_filter ?o) = Inr tF"
       "outputFields_args outputFields = Inr tO"
    and j: "j = \<lparr> journalCtl = [js ''-o'', js ''json''] @ tU @ all_args (opt_all ?o)
                     @ tL @ tS @ tP @ tI @ tN @ tF @ tO,
                  stdErrorText = Some [], generatorInstanceExtists = False \<rparr>"
    by blast
  let ?pre = "[js ''-o'', js ''json''] @ tU @ all_args (opt_all options) @ tL @ tS"
  let ?post = "tI @ tN @ tF @ tO"
  from b(5) have tP: "tP = []" by simp
  have l: "lines_args env ?r = lines_args env ?o"
    by (simp add: lines_args_def)
  have c: "since_until_check env ?r = since_until_check env ?o"
    by (simp add: since_until_check_def)
  have 1: "journalCtl j = ?pre @ ?post" by (simp add: j tP)
  have 2: "constructor env ?r outputFields
        = Inr (j\<lparr>journalCtl := ?pre @ [js ''-p'', [48 + nat a] @ js ''..'' @ [48 + nat b]] @ ?post\<rparr>)"
    using b priority_args_range [OF assms(1-4), of env]
    by (simp add: constructor_def l c j)
  from 1 2 show ?thesis by blast
qed

theorem priority_range_not_ordered_witness:
  "(0::int) \<le> 7 \<and> (7::int) \<le> 7 \<and> (0::int) \<le> 0 \<and> (0::int) \<le> 7
   \<and> constructor utc_env (no_options\<lparr>opt_priority := None\<rparr>) None
       = Inr \<lparr> journalCtl = [js ''-o'', js ''json'', js ''-f'', js ''-n'', js ''10''],
               stdErrorText = Some [], generatorInstanceExtists = False \<rparr>
   \<and> (\<exists>pre post.
         [js ''-o'', js ''json'', js ''-f'', js ''-n'', js ''10''] = pre @ post
       \<and> constructor utc_env (no_options\<lparr>opt_priority := Some (Range (Integer 7) (Integer 0))\<rparr>) None
           = Inr \<lparr> journalCtl = pre @ [js ''-p'', js ''7..0''] @ post,
                   stdErrorText = Some [], generatorInstanceExtists = False \<rparr>)"
proof -
  let ?j = "\<lparr> journalCtl = [js ''-o'', js ''json'', js ''-f'', js ''-n'', js ''10''],
               stdErrorText = Some [], generatorInstanceExtists = False \<rparr>"
  have c: "constructor utc_env (no_options\<lparr>opt_priority := None\<rparr>) None = Inr ?j"
    by (simp add: constructor_def no_options_def until_args_def lines_args_def since_args_def
        since_until_check_def unit_args_def all_args_def)
  have t: "[48 + nat 7] @ js ''..'' @ [48 + nat 0] = js ''7..0''"
    by (simp add: js_def)
  from priority_range_not_ordered [of 7 0 utc_env no_options None ?j, OF _ _ _ _ c]
  have "\<exists>pre post. journalCtl ?j = pre @ post
     \<and> constructor utc_env (no_options\<lparr>opt_priority := Some (Range (Integer 7) (Integer 0))\<rparr>) None
        = Inr (?j\<lparr>journalCtl := pre @ [js ''-p'', [48 + nat 7] @ js ''..'' @ [48 + nat 0]] @ post\<rparr>)"
    by simp
  then have "\<exists>pre post.
         [js ''-o'', js ''json'', js ''-f'', js ''-n'', js ''10''] = pre @ post
       \<and> constructor utc_env (no_options\<lparr>opt_priority := Some (Range (Integer 7) (Integer 0))\<rparr>) None
           = Inr \<lparr> journalCtl = pre @ [js ''-p'', js ''7..0''] @ post,
                   stdErrorText = Some [], generatorInstanceExtists = False \<rparr>"
    unfolding t by simp
  with c show ?thesis by simp
qed

subsection \<open>The repair of a trailing comma\<close>

lemma ends_ws_brace_append: "list_all is_space ws \<Longrightarrow> ends_ws_brace (ws @ [125])"
  by (simp add: ends_ws_brace_def)

lemma not_space_comma: "\<not> is_space 44"
  by (simp add: is_space_def)

lemma not_ends_ws_brace_comma: "\<not> ends_ws_brace (pre @ [44] @ ws @ [125])"
proof -
  have "butlast (pre @ [44] @ ws @ [125]) = pre @ [44] @ ws"
    by (simp add: butlast_append)
  then show ?thesis
    by (simp add: ends_ws_brace_def not_space_comma)
qed

lemma replace_trailing_comma_stray:
  "list_all is_space ws \<Longrightarrow> replace_trailing_comma (pre @ [44] @ ws @ [125]) = pre @ [32, 125]"
proof (induction pre)
  case Nil
  then show ?case using ends_ws_brace_append by simp
next
  case (Cons c pre)
  then show ?case using not_ends_ws_brace_comma [of pre ws] by simp
qed

lemma ends_ws_brace_split:
  "ends_ws_brace s \<Longrightarrow> \<exists>w. s = w @ [125] \<and> list_all is_space w"
  by (cases s rule: rev_cases) (auto simp: ends_ws_brace_def)

lemma replace_trailing_comma_changes:
  "replace_trailing_comma s \<noteq> s \<Longrightarrow> \<exists>p w. s = p @ [44] @ w @ [125] \<and> list_all is_space w"
proof (induction s)
  case Nil
  then show ?case by simp
next
  case (Cons c s)
  show ?case
  proof (cases "c = 44 \<and> ends_ws_brace s")
    case True
    then obtain w where "s = w @ [125]" "list_all is_space w"
      using ends_ws_brace_split by blast
    with True have "c # s = [] @ [44] @ w @ [125] \<and> list_all is_space w" by simp
    then show ?thesis by blast
  next
    case False
    with Cons.prems have "replace_trailing_comma s \<noteq> s" by auto
    from Cons.IH [OF this] obtain p w where "s = p @ [44] @ w @ [125]" "list_all is_space w"
      by blast
    then have "c # s = (c # p) @ [44] @ w @ [125] \<and> list_all is_space w" by simp
    then show ?thesis by blast
  qed
qed

subsection \<open>The lexer at a trailing comma\<close>

lemma lex_run_append:
  "lex_run st (a @ b) =
     (case lex_run st a of
        None \<Rightarrow> None
      | Some (ts, st') \<Rightarrow>
          (case lex_run st' b of None \<Rightarrow> None | Some (ts', st'') \<Rightarrow> Some (ts @ ts', st'')))"
  by (induction a arbitrary: st) (auto split: option.splits)

lemma lex_from_Nil: "lex_from st [] = lex_finish st"
  by (simp add: lex_from_def split: option.splits)

lemma lex_from_Cons:
  "lex_from st (c # cs) =
     (case lex_step c st of None \<Rightarrow> None | Some (ts, st') \<Rightarrow> map_option ((@) ts) (lex_from st' cs))"
  by (auto simp: lex_from_def split: option.splits)

lemma lex_from_append:
  "lex_from st (a @ b) =
     (case lex_run st a of None \<Rightarrow> None | Some (ts, st') \<Rightarrow> map_option ((@) ts) (lex_from st' b))"
  by (auto simp: lex_from_def lex_run_append split: option.splits)

lemma start_token_ok: "start_token c = Some (ts, st) \<Longrightarrow> lex_ok st"
  by (auto simp: start_token_def js_def is_lower_def split: if_splits)

lemma lex_step_ok: "lex_ok st \<Longrightarrow> lex_step c st = Some (ts, st') \<Longrightarrow> lex_ok st'"
  by (cases st) (auto simp: start_token_ok split: if_splits option.splits list.splits)

lemma lex_run_ok: "lex_ok st \<Longrightarrow> lex_run st s = Some (ts, st') \<Longrightarrow> lex_ok st'"
proof (induction s arbitrary: st ts)
  case Nil
  then show ?case by simp
next
  case (Cons c s)
  from Cons.prems(2) obtain t1 st1 t2 where
    1: "lex_step c st = Some (t1, st1)" and 2: "lex_run st1 s = Some (t2, st')"
    by (auto split: option.splits)
  from lex_step_ok [OF Cons.prems(1) 1] have "lex_ok st1" .
  from Cons.IH [OF this 2] show ?case .
qed

text \<open>What a whitespace character of the regular expression, or a brace, does to the lexer.\<close>

lemma start_token_space:
  "is_space c \<Longrightarrow> start_token c = (if is_json_ws c then Some ([], LStart) else None)"
  by (auto simp: is_space_def start_token_def is_json_ws_def is_digit_def)

lemma start_token_rbrace: "start_token 125 = Some ([TRBrace], LStart)"
  by (simp add: start_token_def is_json_ws_def)

lemma start_token_comma: "start_token 44 = Some ([TComma], LStart)"
  by (simp add: start_token_def is_json_ws_def)

lemma start_token_blank: "start_token 32 = Some ([], LStart)"
  by (simp add: start_token_def is_json_ws_def)

lemma breaks_num_next: "breaks c \<Longrightarrow> num_next ns c = None"
  by (cases ns) (auto simp: breaks_def is_space_def is_digit_def)

lemma breaks_escape: "breaks c \<Longrightarrow> escape_char c = None \<and> c \<noteq> 117"
  by (auto simp: breaks_def is_space_def escape_char_def)

lemma breaks_hex: "breaks c \<Longrightarrow> hex_value c = None"
  by (auto simp: breaks_def is_space_def hex_value_def is_digit_def)

lemma breaks_not_lower: "breaks c \<Longrightarrow> \<not> is_lower c"
  by (auto simp: breaks_def is_space_def is_lower_def)

lemma breaks_string: "breaks c \<Longrightarrow> c \<noteq> 34 \<and> c \<noteq> 92"
  by (auto simp: breaks_def is_space_def)

lemma lex_from_string_unterminated:
  "list_all breaks s \<Longrightarrow> lex_from (LString acc) s = None"
proof (induction s arbitrary: acc)
  case Nil
  then show ?case by (simp add: lex_from_Nil)
next
  case (Cons c s)
  then show ?case
    using breaks_string [of c] by (simp add: lex_from_Cons)
qed

lemma lex_from_start_spaces:
  "list_all is_space ws \<Longrightarrow>
     lex_from LStart (ws @ [125]) = (if list_all is_json_ws ws then Some [TRBrace] else None)"
proof (induction ws)
  case Nil
  then show ?case by (simp add: lex_from_Cons lex_from_Nil start_token_rbrace)
next
  case (Cons c ws)
  then show ?case by (simp add: lex_from_Cons start_token_space)
qed

lemma lex_from_number_break:
  assumes that: "breaks c"
  shows "lex_from (LNumber ns lexeme) (c # cs) =
     (if num_final ns then map_option ((#) (TNumber lexeme)) (lex_from LStart (c # cs)) else None)"
proof (cases "start_token c")
  case None
  then show ?thesis by (simp add: lex_from_Cons breaks_num_next that)
next
  case (Some r)
  then show ?thesis
    by (cases r; cases "lex_from (snd r) cs") (simp_all add: lex_from_Cons breaks_num_next that)
qed

lemma lex_from_break_other:
  assumes "lex_ok st" and "breaks c"
    and "st \<noteq> LStart" and "\<forall>ns lexeme. st \<noteq> LNumber ns lexeme" and "list_all breaks cs"
  shows "lex_from st (c # cs) = None"
proof (cases st)
  case (LString acc)
  with assms lex_from_string_unterminated [of "c # cs" acc] show ?thesis by simp
next
  case (LEscape acc)
  with assms breaks_escape [of c] show ?thesis by (simp add: lex_from_Cons)
next
  case (LUnicode acc hs)
  with assms breaks_hex [of c] show ?thesis by (simp add: lex_from_Cons)
next
  case (LLiteral tok rest)
  with assms breaks_not_lower [of c] show ?thesis
    by (cases rest) (auto simp: lex_from_Cons split: list.splits)
qed (use assms in simp_all)

lemma breaks_space: "is_space c \<Longrightarrow> breaks c"
  by (simp add: breaks_def)

lemma list_all_breaks: "list_all is_space ws \<Longrightarrow> list_all breaks (ws @ [125])"
  by (induction ws) (simp_all add: breaks_def)

lemma lex_from_spaces_brace:
  assumes ok: "lex_ok st" and ws: "list_all is_space ws"
    and toks: "lex_from st (ws @ [125]) = Some toks"
  shows "lex_from st [32, 125] = Some toks \<and> (\<exists>ts. toks = ts @ [TRBrace])"
proof -
  obtain c cs where seg: "ws @ [125] = c # cs"
    by (cases "ws @ [125]") simp_all
  from list_all_breaks [OF ws] seg have c: "breaks c" and cs: "list_all breaks cs"
    by simp_all
  have blank: "lex_from LStart [32, 125] = Some [TRBrace]"
    using lex_from_start_spaces [of "[32]"] by (simp add: is_space_def is_json_ws_def)
  have b32: "breaks 32" by (simp add: breaks_def is_space_def)
  show ?thesis
  proof (cases st)
    case LStart
    with toks ws have "toks = [TRBrace]"
      by (simp add: lex_from_start_spaces split: if_splits)
    with LStart blank show ?thesis by simp
  next
    case (LNumber ns lexeme)
    with toks seg c have f: "num_final ns"
      and "map_option ((#) (TNumber lexeme)) (lex_from LStart (ws @ [125])) = Some toks"
      by (simp_all add: lex_from_number_break split: if_splits)
    with ws have "toks = [TNumber lexeme, TRBrace]"
      by (auto simp: lex_from_start_spaces split: if_splits)
    with LNumber f blank b32 show ?thesis
      by (simp add: lex_from_number_break)
  next
    case (LString acc)
    with lex_from_break_other [OF ok c _ _ cs] toks seg show ?thesis by simp
  next
    case (LEscape acc)
    with lex_from_break_other [OF ok c _ _ cs] toks seg show ?thesis by simp
  next
    case (LUnicode acc hs)
    with lex_from_break_other [OF ok c _ _ cs] toks seg show ?thesis by simp
  next
    case (LLiteral tok rest)
    with lex_from_break_other [OF ok c _ _ cs] toks seg show ?thesis by simp
  qed
qed

lemma lex_from_comma_spaces_brace:
  assumes ok: "lex_ok st" and w: "list_all is_space w"
    and toks: "lex_from st (44 # w @ [125]) = Some toks"
  shows "\<exists>ts. toks = ts @ [TComma, TRBrace]"
proof -
  have c: "breaks 44" by (simp add: breaks_def)
  note cs = list_all_breaks [OF w]
  have start: "lex_from LStart (44 # w @ [125])
      = (if list_all is_json_ws w then Some [TComma, TRBrace] else None)"
    using w by (simp add: lex_from_Cons start_token_comma lex_from_start_spaces)
  show ?thesis
  proof (cases st)
    case LStart
    with toks start have "toks = [] @ [TComma, TRBrace]"
      by (simp split: if_splits)
    then show ?thesis by blast
  next
    case (LNumber ns lexeme)
    with toks c start have "toks = [TNumber lexeme] @ [TComma, TRBrace]"
      by (auto simp: lex_from_number_break split: if_splits)
    then show ?thesis by blast
  next
    case (LString acc)
    with lex_from_break_other [OF ok c _ _ cs] toks show ?thesis by simp
  next
    case (LEscape acc)
    with lex_from_break_other [OF ok c _ _ cs] toks show ?thesis by simp
  next
    case (LUnicode acc hs)
    with lex_from_break_other [OF ok c _ _ cs] toks show ?thesis by simp
  next
    case (LLiteral tok rest)
    with lex_from_break_other [OF ok c _ _ cs] toks show ?thesis by simp
  qed
qed

subsection \<open>The recogniser at a trailing comma\<close>

lemma parse_run_append:
  "parse_run s (xs @ ys) = (case parse_run s xs of None \<Rightarrow> None | Some s' \<Rightarrow> parse_run s' ys)"
  by (induction xs arbitrary: s) (auto split: option.splits)

lemma parse_comma_rbrace: "parse_run s [TComma, TRBrace] = None"
proof (cases s)
  case (Pair e stack)
  then show ?thesis
    by (cases e)
       (auto simp: parse_value_def parse_key_def parse_end_def
             split: option.splits list.splits frame.splits)
qed

lemma reduce_Finished:
  assumes that: "reduce v stack = Some (Finished v', stk)"
  shows "v' = v"
proof (cases stack)
  case Nil
  then show ?thesis using that by simp
next
  case (Cons f rest)
  then show ?thesis using that by (cases f) simp_all
qed

lemma parse_step_rbrace_Finished:
  assumes "parse_step TRBrace s = Some (Finished v, stk)"
  shows "\<exists>ps. v = JObject ps"
proof (cases s)
  case (Pair e stack)
  with assms show ?thesis
    by (cases e)
       (auto simp: parse_value_def parse_key_def parse_end_def
             split: option.splits list.splits frame.splits if_splits dest: reduce_Finished)
qed

lemma parse_run_ends_rbrace:
  assumes "parse_run s (xs @ [TRBrace]) = Some (Finished v, stk)"
  shows "\<exists>ps. v = JObject ps"
proof -
  from assms obtain s' where "parse_step TRBrace s' = Some (Finished v, stk)"
    by (auto simp: parse_run_append split: option.splits)
  then show ?thesis by (rule parse_step_rbrace_Finished)
qed

lemma JSON_parse_Some:
  "JSON_parse text = Some v \<longleftrightarrow>
     (\<exists>toks stk. tokenize text = Some toks \<and> parse_run (Value, []) toks = Some (Finished v, stk))"
  by (auto simp: JSON_parse_def split: option.splits expect.splits)

lemma tokenize_append:
  "tokenize (a @ b) = Some toks \<longleftrightarrow>
     (\<exists>ts st t. lex_run LStart a = Some (ts, st) \<and> lex_ok st \<and> lex_from st b = Some t
          \<and> toks = ts @ t)"
proof
  assume "tokenize (a @ b) = Some toks"
  then obtain ts st t where 1: "lex_run LStart a = Some (ts, st)"
    and 2: "lex_from st b = Some t" and 3: "toks = ts @ t"
    by (auto simp: tokenize_def lex_from_append split: option.splits)
  have "lex_ok LStart" by simp
  from lex_run_ok [OF this 1] 1 2 3
  show "\<exists>ts st t. lex_run LStart a = Some (ts, st) \<and> lex_ok st \<and> lex_from st b = Some t
          \<and> toks = ts @ t"
    by blast
next
  assume "\<exists>ts st t. lex_run LStart a = Some (ts, st) \<and> lex_ok st \<and> lex_from st b = Some t
          \<and> toks = ts @ t"
  then show "tokenize (a @ b) = Some toks"
    by (auto simp: tokenize_def lex_from_append)
qed

lemma stray_comma_not_json:
  assumes "list_all is_space w"
  shows "JSON_parse (p @ [44] @ w @ [125]) = None"
proof (rule ccontr)
  assume "JSON_parse (p @ [44] @ w @ [125]) \<noteq> None"
  then obtain v toks stk where t: "tokenize (p @ (44 # w @ [125])) = Some toks"
    and r: "parse_run (Value, []) toks = Some (Finished v, stk)"
    by (auto simp: JSON_parse_Some)
  from t obtain ts st t' where ok: "lex_ok st" and l: "lex_from st (44 # w @ [125]) = Some t'"
    and toks: "toks = ts @ t'"
    unfolding tokenize_append by blast
  from lex_from_comma_spaces_brace [OF ok assms l] obtain x where "t' = x @ [TComma, TRBrace]"
    by blast
  with toks have "toks = (ts @ x) @ [TComma, TRBrace]" by simp
  moreover have "parse_run (Value, []) ((ts @ x) @ [TComma, TRBrace]) = None"
    by (subst parse_run_append)
       (simp del: parse_run.simps add: parse_comma_rbrace split: option.splits)
  ultimately show False using r by simp
qed

lemma valid_json_not_repaired:
  assumes "JSON_parse s = Some v"
  shows "replace_trailing_comma s = s"
proof (rule ccontr)
  assume "replace_trailing_comma s \<noteq> s"
  from replace_trailing_comma_changes [OF this] obtain p w where
    "s = p @ [44] @ w @ [125]" "list_all is_space w" by blast
  with stray_comma_not_json [of w p] assms show False by simp
qed

subsection \<open>Claims about the line decoder\<close>

text \<open>
  C5. Every record the line handler delivers comes from a line that parsed to an object
  (or an array), has the properties \<open>MESSAGE\<close> and \<open>_HOSTNAME\<close>, each with its parsed
  value when the line had it and the empty string otherwise, and has every other
  property, and the elements of an array, as parsed. Every line that parses to an object
  or an array is delivered. (A line that is a JSON number, string, boolean or \<open>null\<close>
  delivers no record: the property access throws and the handler emits an error.)
\<close>

theorem decoded_record_defaults:
  "(\<forall>r. on_line line = Message r \<longrightarrow>
      (\<exists>v. JSON_parse (replace_trailing_comma line) = Some v
         \<and> is_object v \<and> is_object r \<and> elements r = elements v
         \<and> own_property r (js ''MESSAGE'')
             = Some (case own_property v (js ''MESSAGE'') of None \<Rightarrow> JString [] | Some x \<Rightarrow> x)
         \<and> own_property r (js ''_HOSTNAME'')
             = Some (case own_property v (js ''_HOSTNAME'') of None \<Rightarrow> JString [] | Some x \<Rightarrow> x)
         \<and> (\<forall>k. k \<noteq> js ''MESSAGE'' \<and> k \<noteq> js ''_HOSTNAME''
                \<longrightarrow> own_property r k = own_property v k)))
   \<and> (\<forall>v. JSON_parse (replace_trailing_comma line) = Some v \<and> is_object v
          \<longrightarrow> (\<exists>r. on_line line = Message r))"
proof (intro conjI allI impI)
  fix r assume "on_line line = Message r"
  then obtain v m where p: "JSON_parse (replace_trailing_comma line) = Some v"
    and m: "set_default (js ''MESSAGE'') v = Some m"
    and h: "set_default (js ''_HOSTNAME'') m = Some r"
    unfolding on_line_Message by blast
  note M = set_default_Some [OF m] and H = set_default_Some [OF h]
  have 1: "own_property r (js ''MESSAGE'')
             = Some (case own_property v (js ''MESSAGE'') of None \<Rightarrow> JString [] | Some x \<Rightarrow> x)"
    using M H MESSAGE_neq_HOSTNAME by simp
  have 2: "own_property r (js ''_HOSTNAME'')
             = Some (case own_property v (js ''_HOSTNAME'') of None \<Rightarrow> JString [] | Some x \<Rightarrow> x)"
    using M H MESSAGE_neq_HOSTNAME by (metis (no_types, lifting))
  have 3: "\<forall>k. k \<noteq> js ''MESSAGE'' \<and> k \<noteq> js ''_HOSTNAME''
                \<longrightarrow> own_property r k = own_property v k"
    using M H by simp
  from p M H 1 2 3
  show "\<exists>v. JSON_parse (replace_trailing_comma line) = Some v
         \<and> is_object v \<and> is_object r \<and> elements r = elements v
         \<and> own_property r (js ''MESSAGE'')
             = Some (case own_property v (js ''MESSAGE'') of None \<Rightarrow> JString [] | Some x \<Rightarrow> x)
         \<and> own_property r (js ''_HOSTNAME'')
             = Some (case own_property v (js ''_HOSTNAME'') of None \<Rightarrow> JString [] | Some x \<Rightarrow> x)
         \<and> (\<forall>k. k \<noteq> js ''MESSAGE'' \<and> k \<noteq> js ''_HOSTNAME''
                \<longrightarrow> own_property r k = own_property v k)"
    by simp
next
  fix v assume a: "JSON_parse (replace_trailing_comma line) = Some v \<and> is_object v"
  then obtain m where m: "set_default (js ''MESSAGE'') v = Some m"
    using set_default_object by blast
  from set_default_Some [OF m] obtain r where "set_default (js ''_HOSTNAME'') m = Some r"
    using set_default_object by blast
  with a m show "\<exists>r. on_line line = Message r"
    unfolding on_line_Message by blast
qed

lemma parse_host: \<open>JSON_parse (js ''{"_HOSTNAME":"web1"}'')
    = Some (JObject [(js ''_HOSTNAME'', JString (js ''web1''))])\<close>
  by (simp add: json_eval)

lemma repair_host: \<open>replace_trailing_comma (js ''{"_HOSTNAME":"web1"}'') = js ''{"_HOSTNAME":"web1"}''\<close>
  by (simp add: json_eval del: replace_trailing_comma.simps(2))

lemma line_host: \<open>on_line (js ''{"_HOSTNAME":"web1"}'')
    = Message (JObject [(js ''_HOSTNAME'', JString (js ''web1'')), (js ''MESSAGE'', JString [])])\<close>
  by (simp add: on_line_def repair_host parse_host)

theorem decoded_record_defaults_witness:
  \<open>on_line (js ''{"_HOSTNAME":"web1"}'')
     = Message (JObject [(js ''_HOSTNAME'', JString (js ''web1'')), (js ''MESSAGE'', JString [])])
   \<and> JSON_parse (replace_trailing_comma (js ''{"_HOSTNAME":"web1"}''))
     = Some (JObject [(js ''_HOSTNAME'', JString (js ''web1''))])
   \<and> is_object (JObject [(js ''_HOSTNAME'', JString (js ''web1''))])
   \<and> own_property (JObject [(js ''_HOSTNAME'', JString (js ''web1'')), (js ''MESSAGE'', JString [])])
        (js ''MESSAGE'') = Some (JString [])
   \<and> own_property (JObject [(js ''_HOSTNAME'', JString (js ''web1'')), (js ''MESSAGE'', JString [])])
        (js ''_HOSTNAME'') = Some (JString (js ''web1''))\<close>
proof -
  let ?v = "JObject [(js ''_HOSTNAME'', JString (js ''web1''))]"
  let ?r = "JObject [(js ''_HOSTNAME'', JString (js ''web1'')), (js ''MESSAGE'', JString [])]"
  have p: \<open>JSON_parse (replace_trailing_comma (js ''{"_HOSTNAME":"web1"}'')) = Some ?v\<close>
    by (simp add: repair_host parse_host)
  from decoded_record_defaults [of \<open>js ''{"_HOSTNAME":"web1"}''\<close>] line_host
  obtain v where v: \<open>JSON_parse (replace_trailing_comma (js ''{"_HOSTNAME":"web1"}'')) = Some v\<close>
    and m: "own_property ?r (js ''MESSAGE'')
             = Some (case own_property v (js ''MESSAGE'') of None \<Rightarrow> JString [] | Some x \<Rightarrow> x)"
    and h: "own_property ?r (js ''_HOSTNAME'')
             = Some (case own_property v (js ''_HOSTNAME'') of None \<Rightarrow> JString [] | Some x \<Rightarrow> x)"
    by blast
  from v p have "v = ?v" by simp
  with m h have "own_property ?r (js ''MESSAGE'') = Some (JString [])"
    and "own_property ?r (js ''_HOSTNAME'') = Some (JString (js ''web1''))"
    using MESSAGE_neq_HOSTNAME by simp_all
  with line_host p show ?thesis by simp
qed

text \<open>A journal entry without a syslog identifier.\<close>

lemma repair_entry: \<open>replace_trailing_comma (js ''{"__CURSOR":"s=1;i=2","__REALTIME_TIMESTAMP":"1","__MONOTONIC_TIMESTAMP":"2","_BOOT_ID":"b","MESSAGE":"hi"}'')
   = js ''{"__CURSOR":"s=1;i=2","__REALTIME_TIMESTAMP":"1","__MONOTONIC_TIMESTAMP":"2","_BOOT_ID":"b","MESSAGE":"hi"}''\<close>
  by (simp add: json_eval del: replace_trailing_comma.simps(2))

lemma parse_entry: \<open>JSON_parse (js ''{"__CURSOR":"s=1;i=2","__REALTIME_TIMESTAMP":"1","__MONOTONIC_TIMESTAMP":"2","_BOOT_ID":"b","MESSAGE":"hi"}'')
   = Some (JObject [(js ''__CURSOR'', JString (js ''s=1;i=2'')),
       (js ''__REALTIME_TIMESTAMP'', JString (js ''1'')),
       (js ''__MONOTONIC_TIMESTAMP'', JString (js ''2'')),
       (js ''_BOOT_ID'', JString (js ''b'')),
       (js ''MESSAGE'', JString (js ''hi''))])\<close>
  by (simp add: json_eval)

text \<open>
  C4, on a journal entry that has the four address fields and a message but no
  \<open>SYSLOG_IDENTIFIER\<close>: the record is delivered with \<open>_HOSTNAME\<close> defaulted to the
  empty string and without any \<open>SYSLOG_IDENTIFIER\<close>. The handler defaults \<open>MESSAGE\<close>
  and \<open>_HOSTNAME\<close>; the syslog identifier that the README and the type
  \<open>JournalDEntryMinimal\<close> promise is not among the defaults.
\<close>

theorem syslog_identifier_not_defaulted:
  \<open>on_line (js ''{"__CURSOR":"s=1;i=2","__REALTIME_TIMESTAMP":"1","__MONOTONIC_TIMESTAMP":"2","_BOOT_ID":"b","MESSAGE":"hi"}'')
  = Message (JObject [(js ''__CURSOR'', JString (js ''s=1;i=2'')),
       (js ''__REALTIME_TIMESTAMP'', JString (js ''1'')),
       (js ''__MONOTONIC_TIMESTAMP'', JString (js ''2'')),
       (js ''_BOOT_ID'', JString (js ''b'')),
       (js ''MESSAGE'', JString (js ''hi'')),
       (js ''_HOSTNAME'', JString [])])
   \<and> own_property (JObject [(js ''__CURSOR'', JString (js ''s=1;i=2'')),
       (js ''__REALTIME_TIMESTAMP'', JString (js ''1'')),
       (js ''__MONOTONIC_TIMESTAMP'', JString (js ''2'')),
       (js ''_BOOT_ID'', JString (js ''b'')),
       (js ''MESSAGE'', JString (js ''hi'')),
       (js ''_HOSTNAME'', JString [])]) (js ''SYSLOG_IDENTIFIER'') = None\<close>
  by (simp add: on_line_def repair_entry parse_entry)

text \<open>
  C7. Take a raw line that ends with a comma, whitespace (possibly none) and the closing
  brace, such that the line with that comma removed is valid JSON. Then decoding the raw
  line succeeds, and it delivers the same record as decoding the corrected line. (A
  corrected line that is valid JSON and ends with a brace is an object, and needs no
  repair itself.)
\<close>

theorem trailing_comma_repaired:
  assumes ws: "list_all is_space ws"
    and corrected: "JSON_parse (pre @ ws @ js ''}'') = Some v"
  shows "\<exists>r. on_line (pre @ js '','' @ ws @ js ''}'') = Message r
           \<and> on_line (pre @ ws @ js ''}'') = Message r"
proof -
  have comma: "js '','' = [44]" and brace: "js ''}'' = [125]"
    by (simp_all add: js_def)
  from corrected obtain toks stk where t: "tokenize (pre @ (ws @ [125])) = Some toks"
    and r: "parse_run (Value, []) toks = Some (Finished v, stk)"
    by (auto simp: JSON_parse_Some brace)
  from t obtain ts st t' where pre: "lex_run LStart pre = Some (ts, st)" and ok: "lex_ok st"
    and l: "lex_from st (ws @ [125]) = Some t'" and toks: "toks = ts @ t'"
    unfolding tokenize_append by blast
  from lex_from_spaces_brace [OF ok ws l] obtain x where
    blank: "lex_from st [32, 125] = Some t'" and x: "t' = x @ [TRBrace]"
    by blast
  from pre ok blank toks have "tokenize (pre @ [32, 125]) = Some toks"
    unfolding tokenize_append by blast
  with r have repaired: "JSON_parse (pre @ [32, 125]) = Some v"
    unfolding JSON_parse_Some by blast
  from r toks x have "parse_run (Value, []) ((ts @ x) @ [TRBrace]) = Some (Finished v, stk)"
    by simp
  from parse_run_ends_rbrace [OF this] obtain ps where v: "v = JObject ps" by blast
  have raw: "replace_trailing_comma (pre @ js '','' @ ws @ js ''}'') = pre @ [32, 125]"
    unfolding comma brace using ws by (rule replace_trailing_comma_stray)
  have same: "replace_trailing_comma (pre @ ws @ js ''}'') = pre @ ws @ js ''}''"
    using corrected by (rule valid_json_not_repaired)
  from v obtain m where m: "set_default (js ''MESSAGE'') v = Some m"
    by simp
  from set_default_Some [OF m] obtain r where h: "set_default (js ''_HOSTNAME'') m = Some r"
    using set_default_object by blast
  have "on_line (pre @ js '','' @ ws @ js ''}'') = Message r"
    unfolding on_line_Message using raw repaired m h by auto
  moreover have "on_line (pre @ ws @ js ''}'') = Message r"
    unfolding on_line_Message using same corrected m h by auto
  ultimately show ?thesis by blast
qed

theorem trailing_comma_repaired_witness:
  \<open>list_all is_space (js ''  '')
   \<and> JSON_parse (js ''{"MESSAGE":"hi"'' @ js ''  '' @ js ''}'')
       = Some (JObject [(js ''MESSAGE'', JString (js ''hi''))])
   \<and> (\<exists>r. on_line (js ''{"MESSAGE":"hi"'' @ js '','' @ js ''  '' @ js ''}'') = Message r
          \<and> on_line (js ''{"MESSAGE":"hi"'' @ js ''  '' @ js ''}'') = Message r)\<close>
proof -
  have h1: "list_all is_space (js ''  '')"
    by (simp add: is_space_def js_def)
  have h2: \<open>JSON_parse (js ''{"MESSAGE":"hi"'' @ js ''  '' @ js ''}'')
       = Some (JObject [(js ''MESSAGE'', JString (js ''hi''))])\<close>
    by (simp add: json_eval)
  from trailing_comma_repaired [OF h1 h2] h1 h2 show ?thesis by blast
qed

subsection \<open>Claims about the process supervisor\<close>

lemma default_instance_constructed: "constructor env no_options None = Inr default_instance"
  by (simp add: constructor_def no_options_def default_instance_def until_args_def lines_args_def
      since_args_def since_until_check_def unit_args_def all_args_def)

lemma advance_stdErrorText: "stdErrorText (fst (advance this g)) = stdErrorText this"
  by (simp add: advance_def split: gen_status.splits)

lemma step_stdErrorText:
  assumes "stdErrorText (inst w) \<noteq> None"
  shows "stdErrorText (inst (step env w a)) \<noteq> None"
proof (cases a)
  case (ProcEvent ev)
  with assms show ?thesis
    by (cases ev) (simp_all add: on_stderr_data_def)
next
  case CreateGenerator
  with assms show ?thesis by simp
next
  case (Next i)
  with assms advance_stdErrorText [of "inst w" "gens w ! i"] show ?thesis
    by (simp add: split_beta)
qed

lemma run_stdErrorText:
  "stdErrorText (inst w) \<noteq> None \<Longrightarrow> stdErrorText (inst (run env w acts)) \<noteq> None"
  unfolding run_def
proof (induction acts arbitrary: w)
  case Nil
  then show ?case by simp
next
  case (Cons a acts)
  from step_stdErrorText [OF Cons.prems] have "stdErrorText (inst (step env w a)) \<noteq> None" .
  from Cons.IH [OF this] show ?case by simp
qed

text \<open>
  C3, on an exit with code 1 and nothing written to standard error: the error signal
  carries the empty text, not \<open>Process exited with code 1\<close>, and the exit signal follows.
  The text is initialised to the empty string and only ever appended to, so whatever
  happens on the instance it is never \<open>null\<close>, and the right-hand side of \<open>??\<close> is
  never used.
\<close>

theorem exit_error_message_empty:
  "emitted (run utc_env (start default_instance) [ProcEvent (ProcExit (Some 1))]) = [Error [], Exit]
   \<and> Error [] \<noteq> Error (js ''Process exited with code 1'')
   \<and> on_exit env (j\<lparr>stdErrorText := Some []\<rparr>) (Some 1) = [Error [], Exit]
   \<and> stdErrorText (inst (run env (start default_instance) acts)) \<noteq> None"
proof -
  have "stdErrorText (inst (start default_instance)) \<noteq> None"
    by (simp add: start_def default_instance_def)
  then have "stdErrorText (inst (run env (start default_instance) acts)) \<noteq> None"
    by (rule run_stdErrorText)
  then show ?thesis
    by (simp add: run_def start_def default_instance_def on_exit_def)
qed

subsection \<open>Claims about the generator\<close>

text \<open>
  C2, on an instance whose first generator has started: a second \<open>createGenerator()\<close>
  returns a generator object and throws nothing; the error appears on the first
  \<open>next()\<close> of that object and leaves the first generator where it was. When two
  generators are created before either is drawn from, the one drawn from first wins and
  the other, even the one created first, gets the error. Creation never changes the
  instance.
\<close>

theorem second_generator_created_without_error:
  "map status (gens (run utc_env (start default_instance) [CreateGenerator, Next 0, CreateGenerator]))
     = [Awaiting 0, SuspendedStart]
   \<and> map status (gens (run utc_env (start default_instance)
                        [CreateGenerator, Next 0, CreateGenerator, Next 1]))
     = [Awaiting 0, Completed (Inl OnlyOneGenerator)]
   \<and> map status (gens (run utc_env (start default_instance)
                        [CreateGenerator, CreateGenerator, Next 1, Next 0]))
     = [Completed (Inl OnlyOneGenerator), Awaiting 0]
   \<and> inst (step env w CreateGenerator) = inst w
   \<and> gens (step env w CreateGenerator) = gens w @ [createGenerator (inst w)]
   \<and> status (createGenerator (inst w)) = SuspendedStart"
  by (simp add: run_def start_def default_instance_def createGenerator_def advance_def shift_await_def)

subsection \<open>Signals and promises\<close>









lemma resolve_promise_length [simp]: "length (resolve_promise p v ps) = length ps"
  by (simp add: resolve_promise_def)



subsection \<open>The handlers keep the invariant\<close>








lemma gen_on_fields [simp]:
  "status (gen_on s g) = status g" "subscribed (gen_on s g) = subscribed g"
  "yielded (gen_on s g) = yielded g"
  by (cases s; simp add: Let_def)+







subsection \<open>The body of the generator keeps the invariant\<close>





subsection \<open>Runs keep the invariant\<close>


















subsection \<open>Claims about the two consumption modes\<close>














end
